theory Spec2Isabelle
  imports Main "HOL-Library.Sublist"
begin

section \<open>JavaScript values used by the wrapper\<close>

text \<open>
  A JavaScript \<^verbatim>\<open>number\<close> that holds an identifier is an integer or \<^verbatim>\<open>NaN\<close>
  (\<^verbatim>\<open>parseInt\<close> and \<^verbatim>\<open>Number\<close> give \<^verbatim>\<open>NaN\<close> on a string that is no
  number). \<open>None\<close> is \<^verbatim>\<open>NaN\<close>; \<^verbatim>\<open>===\<close> is false as soon as one side is \<^verbatim>\<open>NaN\<close>.
\<close>

type_synonym number = "int option"

definition strict_eq :: "number \<Rightarrow> number \<Rightarrow> bool" where
  "strict_eq a b = (case a of None \<Rightarrow> False | Some x \<Rightarrow> b = Some x)"

text \<open>
  A property of a JavaScript object. \<^verbatim>\<open>'k' in o\<close> asks whether the property exists,
  also when its value is \<^verbatim>\<open>undefined\<close>; reading \<^verbatim>\<open>o.k\<close> gives \<^verbatim>\<open>undefined\<close> in both
  of the first two cases.
\<close>

datatype 'a js_prop = Absent | Undefined | Value 'a

definition has_prop :: "'a js_prop \<Rightarrow> bool" where
  "has_prop p = (p \<noteq> Absent)"

definition read_prop :: "'a js_prop \<Rightarrow> 'a option" where
  "read_prop p = (case p of Value v \<Rightarrow> Some v | _ \<Rightarrow> None)"

definition truthy_flag :: "bool js_prop \<Rightarrow> bool" where
  "truthy_flag p = (p = Value True)"

subsection \<open>Decimal rendering of integers (\<^verbatim>\<open>toString()\<close>)\<close>

definition digit_char :: "nat \<Rightarrow> char" where
  "digit_char d = ''0123456789'' ! d"

function nat_toString :: "nat \<Rightarrow> string" where
  "nat_toString n =
     (if n < 10 then [digit_char n]
      else nat_toString (n div 10) @ [digit_char (n mod 10)])"
  by pat_completeness auto
termination
  by (relation "measure (\<lambda>n. n)") auto

declare nat_toString.simps [simp del]

definition int_toString :: "int \<Rightarrow> string" where
  "int_toString i =
     (if i < 0 then CHR ''-'' # nat_toString (nat (- i)) else nat_toString (nat i))"

subsection \<open>\<^verbatim>\<open>String.prototype.replace\<close> with a string pattern\<close>

text \<open>
  With a string as pattern, \<^verbatim>\<open>s.replace(pat, rep)\<close> replaces the first occurrence of
  \<^verbatim>\<open>pat\<close> in \<^verbatim>\<open>s\<close>, wherever it is, and returns \<^verbatim>\<open>s\<close> when there is none. (The
  replacement used by the wrapper is the empty string, so the \<^verbatim>\<open>$\<close> patterns of a
  replacement string play no role.)
\<close>

fun replace_first :: "string \<Rightarrow> string \<Rightarrow> string \<Rightarrow> string" where
  "replace_first pat rep [] = (if pat = [] then rep else [])"
| "replace_first pat rep (c # cs) =
     (if prefix pat (c # cs) then rep @ drop (length pat) (c # cs)
      else c # replace_first pat rep cs)"

section \<open>The wrapper: \<^verbatim>\<open>src/lib/telegram/client.ts\<close>\<close>

subsection \<open>Platform data\<close>

datatype peer = PeerUser int | PeerChat int | PeerChannel int

text \<open>
  The reply header of a message (\<^verbatim>\<open>msg.replyTo\<close> when present). The source probes it
  with \<^verbatim>\<open>in\<close> before it reads a property, so each property records whether it exists.
\<close>

record reply_header =
  replyToMsgId :: "int js_prop"
  replyToTopId :: "int js_prop"
  forumTopic :: "bool js_prop"

record api_message =
  msg_id :: int
  msg_message :: string
  msg_date :: int
  msg_fromId :: "peer option"
  msg_peerId :: "peer option"
  msg_replyTo :: "reply_header option"

record api_message_service =
  svc_id :: int
  svc_date :: int
  svc_fromId :: "peer option"

datatype type_message =
  Message api_message
| MessageService api_message_service
| MessageEmpty

record parsed_message =
  p_id :: int
  p_text :: string
  p_date :: int
  p_fromId :: "string option"
  p_replyToMsgId :: "int option"
  p_topicId :: "int option"

datatype chat_id = ChatIdString string | ChatIdNumber int

definition chatId_toString :: "chat_id \<Rightarrow> string" where
  "chatId_toString c = (case c of ChatIdString s \<Rightarrow> s | ChatIdNumber n \<Rightarrow> int_toString n)"

subsection \<open>\<^verbatim>\<open>extractPeerId\<close> and \<^verbatim>\<open>parseMessage\<close>\<close>

definition extractPeerId :: "peer \<Rightarrow> string" where
  "extractPeerId p =
     (case p of
        PeerUser userId \<Rightarrow> int_toString userId
      | PeerChat chatId \<Rightarrow> int_toString chatId
      | PeerChannel channelId \<Rightarrow> int_toString channelId)"

text \<open>The topic (thread root) that \<^verbatim>\<open>parseMessage\<close> reads from the reply header.\<close>

definition thread_root :: "reply_header option \<Rightarrow> int option" where
  "thread_root r =
     (case r of
        None \<Rightarrow> None
      | Some h \<Rightarrow>
          if has_prop (replyToTopId h) then read_prop (replyToTopId h)
          else if has_prop (forumTopic h) \<and> truthy_flag (forumTopic h)
               then read_prop (replyToMsgId h)
          else None)"

definition parseMessage :: "type_message \<Rightarrow> parsed_message option" where
  "parseMessage m =
     (case m of
        Message msg \<Rightarrow>
          Some \<lparr> p_id = msg_id msg,
                 p_text = msg_message msg,
                 p_date = msg_date msg,
                 p_fromId = map_option extractPeerId (msg_fromId msg),
                 p_replyToMsgId =
                   (case msg_replyTo msg of
                      None \<Rightarrow> None
                    | Some h \<Rightarrow>
                        if has_prop (replyToMsgId h) then read_prop (replyToMsgId h)
                        else None),
                 p_topicId = thread_root (msg_replyTo msg) \<rparr>
      | MessageService svc \<Rightarrow>
          Some \<lparr> p_id = svc_id svc,
                 p_text = ''[Service Message]'',
                 p_date = svc_date svc,
                 p_fromId = map_option extractPeerId (svc_fromId svc),
                 p_replyToMsgId = None,
                 p_topicId = None \<rparr>
      | MessageEmpty \<Rightarrow> None)"

subsection \<open>The new-message handler of \<^verbatim>\<open>streamForumTopicMessages\<close>\<close>

text \<open>The chat test: the two comparisons of the peer identifier with \<^verbatim>\<open>chatId\<close>.\<close>

definition msgChatId :: "peer option \<Rightarrow> string" where
  "msgChatId peerId = (case peerId of None \<Rightarrow> [] | Some p \<Rightarrow> extractPeerId p)"

definition chat_matches :: "chat_id \<Rightarrow> peer option \<Rightarrow> bool" where
  "chat_matches chatId peerId =
     (msgChatId peerId = chatId_toString chatId
      \<or> msgChatId peerId = replace_first ''-100'' [] (chatId_toString chatId))"

text \<open>The test of the general-topic branch.\<close>

definition general_topic_accepts :: "reply_header option \<Rightarrow> bool" where
  "general_topic_accepts r =
     (case r of
        None \<Rightarrow> True
      | Some h \<Rightarrow>
          (has_prop (replyToTopId h) \<and> replyToTopId h = Value 1)
          \<or> (has_prop (forumTopic h) \<and> truthy_flag (forumTopic h)))"

text \<open>The test of the branch for every other topic.\<close>

definition other_topic_accepts :: "number \<Rightarrow> reply_header option \<Rightarrow> bool" where
  "other_topic_accepts topicId r =
     (case r of
        None \<Rightarrow> False
      | Some h \<Rightarrow>
          has_prop (replyToTopId h) \<and> strict_eq (read_prop (replyToTopId h)) topicId)"

text \<open>
  The handler registered on the connection. \<open>env_TOPIC_ID\<close> is
  \<^verbatim>\<open>Number(process.env.TOPIC_ID)\<close>; the event carries \<^verbatim>\<open>event.message\<close>. The result is
  the argument \<^verbatim>\<open>onMessage\<close> is called with, \<open>None\<close> when it is not called.
\<close>

definition streamHandler ::
  "number \<Rightarrow> chat_id \<Rightarrow> number \<Rightarrow> type_message option \<Rightarrow> parsed_message option" where
  "streamHandler env_TOPIC_ID chatId topicId event_message =
     (case event_message of
        Some (Message message) \<Rightarrow>
          if chat_matches chatId (msg_peerId message) then
            if strict_eq topicId env_TOPIC_ID then
              if general_topic_accepts (msg_replyTo message)
              then parseMessage (Message message) else None
            else
              if other_topic_accepts topicId (msg_replyTo message)
              then parseMessage (Message message) else None
          else None
      | _ \<Rightarrow> None)"

text \<open>The filter accepts a message when the handler hands it to \<^verbatim>\<open>onMessage\<close>.\<close>

definition filter_accepts ::
  "number \<Rightarrow> chat_id \<Rightarrow> number \<Rightarrow> api_message \<Rightarrow> bool" where
  "filter_accepts env_TOPIC_ID chatId topicId message =
     (streamHandler env_TOPIC_ID chatId topicId (Some (Message message)) \<noteq> None)"

subsection \<open>The chat test in the words of the specification\<close>

text \<open>
  The specification describes the second comparison as the string form of \<^verbatim>\<open>chatId\<close>
  with a leading \<^verbatim>\<open>-100\<close> prefix removed. \<open>spec_chat_matches\<close> is that reading, to be
  compared with \<open>chat_matches\<close>; \<open>first_occurrence_removed\<close> says that \<open>r\<close> is \<open>s\<close>
  without the first occurrence of \<open>pat\<close> (and \<open>s\<close> itself when \<open>pat\<close> does not occur).
\<close>

definition remove_leading_prefix :: "string \<Rightarrow> string \<Rightarrow> string" where
  "remove_leading_prefix pre s = (if prefix pre s then drop (length pre) s else s)"

definition spec_chat_matches :: "chat_id \<Rightarrow> peer option \<Rightarrow> bool" where
  "spec_chat_matches chatId peerId =
     (msgChatId peerId = chatId_toString chatId
      \<or> msgChatId peerId = remove_leading_prefix ''-100'' (chatId_toString chatId))"

definition first_occurrence_removed :: "string \<Rightarrow> string \<Rightarrow> string \<Rightarrow> bool" where
  "first_occurrence_removed pat s r =
     (if sublist pat s
      then \<exists>a b. s = a @ pat @ b \<and> \<not> sublist pat (a @ butlast pat) \<and> r = a @ b
      else r = s)"

subsection \<open>The connection handle: \<^verbatim>\<open>connect\<close> and \<^verbatim>\<open>disconnect\<close>\<close>

text \<open>
  A thrown value is an \<^verbatim>\<open>Error\<close> object with its message, or any other value.
\<close>

datatype thrown = Error string | NonError

text \<open>
  \<^verbatim>\<open>TelegramClient\<close> objects live in a store; a handle is the position of its object in
  the store, so that \<^verbatim>\<open>new TelegramClient(...)\<close> extends the store and two handles are
  the same object exactly when they are equal. The wrapper's field \<^verbatim>\<open>this.client\<close>
  holds a handle or \<^verbatim>\<open>null\<close>.
\<close>

record telegram_client =
  connectionRetries :: nat
  tc_connected :: bool

record service =
  svc_client :: "nat option"
  store :: "telegram_client list"

definition new_service :: service where
  "new_service = \<lparr> svc_client = None, store = [] \<rparr>"

definition is_connected :: "service \<Rightarrow> nat \<Rightarrow> bool" where
  "is_connected s h = (h < length (store s) \<and> tc_connected (store s ! h))"

text \<open>
  \<open>transport\<close> is the outcome of the library's \<^verbatim>\<open>client.connect()\<close>: \<open>None\<close> when it
  resolves, the thrown value when it gives up. The result is the returned handle or the
  thrown value, with the wrapper afterwards.
\<close>

definition connect :: "thrown option \<Rightarrow> service \<Rightarrow> (thrown + nat) \<times> service" where
  "connect transport s =
     (case svc_client s of
        Some h \<Rightarrow>
          if is_connected s h then (Inr h, s)
          else
            (let h' = length (store s);
                 s' = s \<lparr> svc_client := Some h',
                          store := store s @ [\<lparr> connectionRetries = 5, tc_connected = False \<rparr>] \<rparr>
             in case transport of
                  Some e \<Rightarrow> (Inl e, s')
                | None \<Rightarrow>
                    (Inr h', s' \<lparr> store := (store s') [h' := (store s' ! h') \<lparr> tc_connected := True \<rparr>] \<rparr>))
      | None \<Rightarrow>
          (let h' = length (store s);
               s' = s \<lparr> svc_client := Some h',
                        store := store s @ [\<lparr> connectionRetries = 5, tc_connected = False \<rparr>] \<rparr>
           in case transport of
                Some e \<Rightarrow> (Inl e, s')
              | None \<Rightarrow>
                  (Inr h', s' \<lparr> store := (store s') [h' := (store s' ! h') \<lparr> tc_connected := True \<rparr>] \<rparr>)))"

definition disconnect :: "service \<Rightarrow> service" where
  "disconnect s =
     (case svc_client s of
        None \<Rightarrow> s
      | Some h \<Rightarrow>
          s \<lparr> store := (if h < length (store s)
                         then (store s) [h := (store s ! h) \<lparr> tc_connected := False \<rparr>]
                         else store s),
              svc_client := None \<rparr>)"

subsection \<open>The platform as seen by the wrapper\<close>

datatype entity = EntityChannel int | EntityChat int | EntityUser int

datatype messages_result = Messages "type_message list" | MessagesNotModified

record api_forum_topic =
  ft_id :: int
  ft_title :: string
  ft_unreadCount :: int
  ft_topMessage :: int
  ft_date :: int
  ft_closed :: "bool option"
  ft_pinned :: "bool option"

datatype type_forum_topic = ForumTopic api_forum_topic | ForumTopicDeleted int

record ForumTopicInfo =
  fti_id :: int
  fti_title :: string
  fti_unreadCount :: int
  fti_lastMessageId :: "int option"
  fti_date :: int
  fti_closed :: bool
  fti_pinned :: bool

text \<open>
  What the library answers to the calls of one wrapper method: the outcome of
  \<^verbatim>\<open>client.connect()\<close>, of \<^verbatim>\<open>client.getEntity(chatId)\<close> and of the two
  \<^verbatim>\<open>client.invoke\<close> requests. \<^verbatim>\<open>chatId\<close> is \<open>None\<close> when it is \<^verbatim>\<open>undefined\<close>.
\<close>

record platform =
  pf_transport :: "thrown option"
  pf_getEntity :: "chat_id option \<Rightarrow> thrown + entity"
  pf_GetReplies :: "entity \<Rightarrow> number \<Rightarrow> number \<Rightarrow> thrown + messages_result"
  pf_GetForumTopics :: "entity \<Rightarrow> thrown + type_forum_topic list"

subsection \<open>\<^verbatim>\<open>getForumTopicMessages\<close> and \<^verbatim>\<open>getForumTopics\<close>\<close>

fun parse_all :: "type_message list \<Rightarrow> parsed_message list" where
  "parse_all [] = []"
| "parse_all (msg # msgs) =
     (case parseMessage msg of
        None \<Rightarrow> parse_all msgs
      | Some parsed \<Rightarrow> parsed # parse_all msgs)"

text \<open>
  \<^verbatim>\<open>connect()\<close> is awaited before the \<^verbatim>\<open>try\<close> block; the \<^verbatim>\<open>catch\<close> block logs and
  throws the caught value again, unchanged.
\<close>

definition getForumTopicMessages ::
  "platform \<Rightarrow> service \<Rightarrow> chat_id option \<Rightarrow> number \<Rightarrow> number
     \<Rightarrow> (thrown + parsed_message list) \<times> service" where
  "getForumTopicMessages pf s chatId topicId limit =
     (case connect (pf_transport pf) s of
        (Inl e, s') \<Rightarrow> (Inl e, s')
      | (Inr client, s') \<Rightarrow>
          (case pf_getEntity pf chatId of
             Inl error \<Rightarrow> (Inl error, s')
           | Inr chat \<Rightarrow>
               (case pf_GetReplies pf chat topicId limit of
                  Inl error \<Rightarrow> (Inl error, s')
                | Inr result \<Rightarrow>
                    (case result of
                       Messages msgs \<Rightarrow> (Inr (parse_all msgs), s')
                     | MessagesNotModified \<Rightarrow> (Inr [], s')))))"

fun collect_topics :: "type_forum_topic list \<Rightarrow> ForumTopicInfo list" where
  "collect_topics [] = []"
| "collect_topics (ForumTopic topic # topics) =
     \<lparr> fti_id = ft_id topic,
       fti_title = ft_title topic,
       fti_unreadCount = (if ft_unreadCount topic = 0 then 0 else ft_unreadCount topic),
       fti_lastMessageId = Some (ft_topMessage topic),
       fti_date = ft_date topic,
       fti_closed = (case ft_closed topic of Some True \<Rightarrow> True | _ \<Rightarrow> False),
       fti_pinned = (case ft_pinned topic of Some True \<Rightarrow> True | _ \<Rightarrow> False) \<rparr>
     # collect_topics topics"
| "collect_topics (ForumTopicDeleted _ # topics) = collect_topics topics"

definition getForumTopics ::
  "platform \<Rightarrow> service \<Rightarrow> chat_id option \<Rightarrow> (thrown + ForumTopicInfo list) \<times> service" where
  "getForumTopics pf s chatId =
     (case connect (pf_transport pf) s of
        (Inl e, s') \<Rightarrow> (Inl e, s')
      | (Inr client, s') \<Rightarrow>
          (case pf_getEntity pf chatId of
             Inl error \<Rightarrow> (Inl error, s')
           | Inr entity \<Rightarrow>
               (case pf_GetForumTopics pf entity of
                  Inl error \<Rightarrow> (Inl error, s')
                | Inr topics \<Rightarrow> (Inr (collect_topics topics), s'))))"

section \<open>The fetch endpoint: \<^verbatim>\<open>GET /api/telegram/messages\<close>\<close>

text \<open>
  The query parameters and the environment variables the handler reads; \<open>None\<close> is a
  missing parameter (\<^verbatim>\<open>null\<close>) or an unset variable (\<^verbatim>\<open>undefined\<close>).
\<close>

record search_params =
  sp_chatId :: "string option"
  sp_topicId :: "string option"
  sp_limit :: "string option"

record process_env =
  env_SUPERGROUP_ID :: "string option"
  env_TOPIC_ID_str :: "string option"

text \<open>\<^verbatim>\<open>a || b\<close> on strings: the empty string is falsy, like \<^verbatim>\<open>null\<close> and \<^verbatim>\<open>undefined\<close>.\<close>

definition or_else :: "string option \<Rightarrow> string option \<Rightarrow> string option" where
  "or_else a b = (case a of Some (c # cs) \<Rightarrow> Some (c # cs) | _ \<Rightarrow> b)"

datatype json_body =
  MessagesEnvelope bool number nat "parsed_message list"
| FailureEnvelope bool string string

record response =
  status :: nat
  body :: json_body

definition try_catch :: "(thrown + 'a) \<times> 's \<Rightarrow> (thrown \<Rightarrow> thrown + 'a) \<Rightarrow> (thrown + 'a) \<times> 's" where
  "try_catch block handler =
     (case block of
        (Inl error, s) \<Rightarrow> (handler error, s)
      | (Inr v, s) \<Rightarrow> (Inr v, s))"

text \<open>
  The module keeps one wrapper, created on first use. \<open>construct\<close> is the outcome of
  \<^verbatim>\<open>new TelegramService()\<close>, whose constructor builds the session from the
  environment and can throw.
\<close>

definition getTelegramService ::
  "thrown option \<Rightarrow> service option \<Rightarrow> (thrown + service) \<times> service option" where
  "getTelegramService construct telegramService =
     (case telegramService of
        Some s \<Rightarrow> (Inr s, Some s)
      | None \<Rightarrow>
          (case construct of
             Some e \<Rightarrow> (Inl e, None)
           | None \<Rightarrow> (Inr new_service, Some new_service)))"

text \<open>
  The three values the handler resolves from the request. \<open>parseInt\<close> is the built-in
  function; the last operand of each \<^verbatim>\<open>||\<close> chain that is parsed is a non-empty
  literal, so the chain is always a string.
\<close>

definition request_chatId :: "process_env \<Rightarrow> search_params \<Rightarrow> string option" where
  "request_chatId env searchParams =
     or_else (sp_chatId searchParams) (env_SUPERGROUP_ID env)"

definition request_topicId :: "(string \<Rightarrow> number) \<Rightarrow> process_env \<Rightarrow> search_params \<Rightarrow> number" where
  "request_topicId parseInt env searchParams =
     parseInt (case or_else (or_else (sp_topicId searchParams) (env_TOPIC_ID_str env))
                      (Some ''1'') of
                 Some t \<Rightarrow> t | None \<Rightarrow> [])"

definition request_limit :: "(string \<Rightarrow> number) \<Rightarrow> search_params \<Rightarrow> number" where
  "request_limit parseInt searchParams =
     parseInt (case or_else (sp_limit searchParams) (Some ''100'') of
                 Some t \<Rightarrow> t | None \<Rightarrow> [])"

text \<open>
  The handler: its whole body is the \<^verbatim>\<open>try\<close> block. \<open>construct\<close> and \<open>pf\<close> are what
  the library does during this request; the state is the module variable
  \<^verbatim>\<open>telegramService\<close>.
\<close>

definition GET_messages ::
  "(string \<Rightarrow> number) \<Rightarrow> process_env \<Rightarrow> thrown option \<Rightarrow> platform \<Rightarrow> search_params
     \<Rightarrow> service option \<Rightarrow> (thrown + response) \<times> service option" where
  "GET_messages parseInt env construct pf searchParams telegramService =
     try_catch
       (let chatId = request_chatId env searchParams;
            topicId = request_topicId parseInt env searchParams;
            limit = request_limit parseInt searchParams
        in case getTelegramService construct telegramService of
             (Inl e, m) \<Rightarrow> (Inl e, m)
           | (Inr service, m) \<Rightarrow>
               (case getForumTopicMessages pf service (map_option ChatIdString chatId)
                       topicId limit of
                  (Inl e, service') \<Rightarrow> (Inl e, Some service')
                | (Inr messages, service') \<Rightarrow>
                    (Inr \<lparr> status = 200,
                           body = MessagesEnvelope True topicId (length messages) messages \<rparr>,
                     Some service')))
       (\<lambda>error.
          let errorMessage = (case error of Error m \<Rightarrow> m | NonError \<Rightarrow> ''Unknown error occurred'')
          in Inr \<lparr> status = 500,
                   body = FailureEnvelope False ''Failed to fetch messages'' errorMessage \<rparr>)"

section \<open>The stream endpoint: \<^verbatim>\<open>GET /api/telegram/stream\<close>\<close>

text \<open>
  JavaScript runs one handler at a time, so the endpoint is a state machine whose steps
  are the handlers: the request handler \<^verbatim>\<open>GET\<close> (which runs \<^verbatim>\<open>start\<close> up to its
  \<^verbatim>\<open>await\<close>), the continuation of \<^verbatim>\<open>start\<close> when the subscription resolves or
  rejects, the \<^verbatim>\<open>onMessage\<close> callback, the heartbeat callback, \<^verbatim>\<open>cancel\<close> and the
  abort listener.

  Wrapper instances and timers are named by numbers in the order of their creation. The
  variables \<^verbatim>\<open>isStreamActive\<close> and \<^verbatim>\<open>heartbeatInterval\<close> are local to one call of
  \<^verbatim>\<open>GET\<close> and live in its \<open>connection\<close>; \<^verbatim>\<open>telegramService\<close> is declared at module
  level and lives in the state of the module. The calls of \<^verbatim>\<open>streamForumTopicMessages\<close>
  and \<^verbatim>\<open>disconnect\<close> are logged with the wrapper they are made on. Time stamps are left
  out of the events.
\<close>

datatype stream_event =
  ConnectedEvent number "string option"
| MessageEvent number parsed_message
| PingEvent
| ErrorEvent string

text \<open>
  A connection: the wrapper its request constructed, the resolved parameters, the two
  local variables, and the state of its stream. \<open>c_awaiting\<close> holds while \<^verbatim>\<open>start\<close>
  waits for \<^verbatim>\<open>streamForumTopicMessages\<close>; \<open>c_handler\<close> holds once the wrapper has
  registered the new-message handler; \<open>c_closed\<close> holds once the stream is closed (by
  \<^verbatim>\<open>controller.close()\<close> or by the consumer's cancellation); \<open>enqueued\<close> lists the
  events handed to \<^verbatim>\<open>controller.enqueue\<close>, oldest first.
\<close>

record connection =
  c_service :: nat
  c_chatId :: "string option"
  c_topicId :: number
  isStreamActive :: bool
  heartbeatInterval :: "nat option"
  c_awaiting :: bool
  c_handler :: bool
  c_closed :: bool
  enqueued :: "stream_event list"

record stream_module =
  telegramService :: "nat option"
  services :: nat
  conns :: "connection list"
  timers :: "bool list"
  stream_calls :: "nat list"
  disconnect_calls :: "nat list"

definition init_module :: stream_module where
  "init_module =
     \<lparr> telegramService = None, services = 0, conns = [], timers = [],
       stream_calls = [], disconnect_calls = [] \<rparr>"

text \<open>The built-in functions and the environment the handlers read.\<close>

record runtime =
  rt_parseInt :: "string \<Rightarrow> number"
  rt_Number :: "string option \<Rightarrow> number"
  rt_env :: process_env

definition upd_conn :: "nat \<Rightarrow> (connection \<Rightarrow> connection) \<Rightarrow> stream_module \<Rightarrow> stream_module" where
  "upd_conn c f s = s \<lparr> conns := (conns s) [c := f (conns s ! c)] \<rparr>"

text \<open>
  \<^verbatim>\<open>controller.enqueue\<close> throws once the stream is closed; \<open>enqueue\<close> gives \<open>None\<close>
  then.
\<close>

definition enqueue :: "stream_event \<Rightarrow> connection \<Rightarrow> connection option" where
  "enqueue ev k = (if c_closed k then None else Some (k \<lparr> enqueued := enqueued k @ [ev] \<rparr>))"

text \<open>
  \<^verbatim>\<open>GET\<close>: a new wrapper is stored in the module variable, the local variables are
  initialised, and \<^verbatim>\<open>start\<close> enqueues the \<^verbatim>\<open>connected\<close> event and calls
  \<^verbatim>\<open>streamForumTopicMessages\<close> on the wrapper the module variable holds at that moment.
\<close>

definition GET_stream :: "runtime \<Rightarrow> search_params \<Rightarrow> stream_module \<Rightarrow> stream_module" where
  "GET_stream rt searchParams s =
     (let w = services s;
          chatId = request_chatId (rt_env rt) searchParams;
          topicId = request_topicId (rt_parseInt rt) (rt_env rt) searchParams;
          k = \<lparr> c_service = w, c_chatId = chatId, c_topicId = topicId,
                isStreamActive = True, heartbeatInterval = None,
                c_awaiting = True, c_handler = False, c_closed = False,
                enqueued = [ConnectedEvent topicId chatId] \<rparr>
      in s \<lparr> telegramService := Some w,
             services := Suc w,
             conns := conns s @ [k],
             stream_calls := stream_calls s @ [w] \<rparr>)"

text \<open>
  The subscription resolves: the wrapper has registered its handler, and \<^verbatim>\<open>start\<close>
  goes on to \<^verbatim>\<open>setInterval\<close>.
\<close>

definition subscribe_resolved :: "nat \<Rightarrow> stream_module \<Rightarrow> stream_module" where
  "subscribe_resolved c s =
     (if c < length (conns s) \<and> c_awaiting (conns s ! c) then
        (let t = length (timers s)
         in upd_conn c (\<lambda>k. k \<lparr> c_awaiting := False, c_handler := True,
                                 heartbeatInterval := Some t \<rparr>)
              (s \<lparr> timers := timers s @ [True] \<rparr>))
      else s)"

text \<open>The subscription rejects: the \<^verbatim>\<open>catch\<close> block of \<^verbatim>\<open>start\<close>.\<close>

definition subscribe_rejected :: "nat \<Rightarrow> thrown \<Rightarrow> stream_module \<Rightarrow> stream_module" where
  "subscribe_rejected c error s =
     (if c < length (conns s) \<and> c_awaiting (conns s ! c) then
        upd_conn c
          (\<lambda>k. let k1 = k \<lparr> c_awaiting := False \<rparr>
                in case enqueue (ErrorEvent (case error of Error m \<Rightarrow> m
                                                         | NonError \<Rightarrow> ''Unknown error'')) k1 of
                     None \<Rightarrow> k1
                   | Some k2 \<Rightarrow> k2 \<lparr> c_closed := True \<rparr>) s
      else s)"

text \<open>The callback handed to \<^verbatim>\<open>streamForumTopicMessages\<close>.\<close>

definition onMessage :: "parsed_message \<Rightarrow> connection \<Rightarrow> connection" where
  "onMessage message k =
     (if \<not> isStreamActive k then k
      else case enqueue (MessageEvent (c_topicId k) message) k of
             None \<Rightarrow> k
           | Some k' \<Rightarrow> k')"

text \<open>
  A new-message event of the library reaches the handler that the subscription of
  connection \<open>c\<close> registered; the handler calls \<^verbatim>\<open>onMessage\<close> on the messages it
  accepts. With \<^verbatim>\<open>chatId\<close> undefined (no query parameter and no \<^verbatim>\<open>SUPERGROUP_ID\<close>)
  the handler throws at \<^verbatim>\<open>chatId.toString()\<close> and calls nothing.
\<close>

definition new_message_event ::
  "runtime \<Rightarrow> nat \<Rightarrow> type_message option \<Rightarrow> stream_module \<Rightarrow> stream_module" where
  "new_message_event rt c event_message s =
     (if c < length (conns s) \<and> c_handler (conns s ! c) then
        (case c_chatId (conns s ! c) of
           None \<Rightarrow> s
         | Some chatId \<Rightarrow>
             (case streamHandler (rt_Number rt (env_TOPIC_ID_str (rt_env rt)))
                     (ChatIdString chatId) (c_topicId (conns s ! c)) event_message of
                None \<Rightarrow> s
              | Some parsed \<Rightarrow> upd_conn c (onMessage parsed) s))
      else s)"

text \<open>The heartbeat callback; it runs only while its timer is live.\<close>

definition heartbeat :: "nat \<Rightarrow> stream_module \<Rightarrow> stream_module" where
  "heartbeat c s =
     (if c < length (conns s) then
        (case heartbeatInterval (conns s ! c) of
           None \<Rightarrow> s
         | Some t \<Rightarrow>
             if t < length (timers s) \<and> timers s ! t then
               (if \<not> isStreamActive (conns s ! c) then s \<lparr> timers := (timers s) [t := False] \<rparr>
                else case enqueue PingEvent (conns s ! c) of
                       Some k' \<Rightarrow> upd_conn c (\<lambda>_. k') s
                     | None \<Rightarrow>
                         upd_conn c (\<lambda>k. k \<lparr> isStreamActive := False \<rparr>)
                           (s \<lparr> timers := (timers s) [t := False] \<rparr>))
             else s)
      else s)"

text \<open>
  The three statements that \<^verbatim>\<open>cancel\<close> and the abort listener share. The wrapper that
  is disconnected is the one the module variable holds when the handler runs.
\<close>

definition teardown :: "nat \<Rightarrow> stream_module \<Rightarrow> stream_module" where
  "teardown c s =
     (let s1 = upd_conn c (\<lambda>k. k \<lparr> isStreamActive := False \<rparr>) s;
          s2 = (case heartbeatInterval (conns s1 ! c) of
                  Some t \<Rightarrow> s1 \<lparr> timers := (timers s1) [t := False] \<rparr>
                | None \<Rightarrow> s1)
      in case telegramService s2 of
           Some w \<Rightarrow> s2 \<lparr> disconnect_calls := disconnect_calls s2 @ [w] \<rparr>
         | None \<Rightarrow> s2)"

text \<open>The consumer cancels the stream: the stream is closed and \<^verbatim>\<open>cancel\<close> runs.\<close>

definition cancel :: "nat \<Rightarrow> stream_module \<Rightarrow> stream_module" where
  "cancel c s =
     (if c < length (conns s)
      then teardown c (upd_conn c (\<lambda>k. k \<lparr> c_closed := True \<rparr>) s)
      else s)"

definition abort_listener :: "nat \<Rightarrow> stream_module \<Rightarrow> stream_module" where
  "abort_listener c s = (if c < length (conns s) then teardown c s else s)"

datatype action =
  Open search_params
| SubscribeResolved nat
| SubscribeRejected nat thrown
| NewMessageEvent nat "type_message option"
| Heartbeat nat
| Cancel nat
| Abort nat

fun step :: "runtime \<Rightarrow> action \<Rightarrow> stream_module \<Rightarrow> stream_module" where
  "step rt (Open searchParams) s = GET_stream rt searchParams s"
| "step rt (SubscribeResolved c) s = subscribe_resolved c s"
| "step rt (SubscribeRejected c e) s = subscribe_rejected c e s"
| "step rt (NewMessageEvent c ev) s = new_message_event rt c ev s"
| "step rt (Heartbeat c) s = heartbeat c s"
| "step rt (Cancel c) s = cancel c s"
| "step rt (Abort c) s = abort_listener c s"

fun run :: "runtime \<Rightarrow> action list \<Rightarrow> stream_module \<Rightarrow> stream_module" where
  "run rt [] s = s"
| "run rt (a # as) s = run rt as (step rt a s)"

text \<open>The events of a connection that carry a message or a ping.\<close>

fun is_push :: "stream_event \<Rightarrow> bool" where
  "is_push (MessageEvent _ _) = True"
| "is_push PingEvent = True"
| "is_push _ = False"

definition pushed :: "nat \<Rightarrow> stream_module \<Rightarrow> stream_event list" where
  "pushed c s = filter is_push (enqueued (conns s ! c))"

definition timer_live :: "stream_module \<Rightarrow> nat \<Rightarrow> bool" where
  "timer_live s t = (t < length (timers s) \<and> timers s ! t)"

text \<open>
  What holds in every state the module reaches: wrappers are numbered in the order of the
  requests, the module variable holds the wrapper of the latest request, and a timer a
  connection holds has been created.
\<close>

definition wf_module :: "stream_module \<Rightarrow> bool" where
  "wf_module s =
     (services s = length (conns s)
      \<and> (\<forall>i < length (conns s). c_service (conns s ! i) = i)
      \<and> telegramService s = (if conns s = [] then None else Some (length (conns s) - 1))
      \<and> (\<forall>i < length (conns s). \<forall>t. heartbeatInterval (conns s ! i) = Some t
            \<longrightarrow> t < length (timers s)))"

section \<open>The display component: \<^verbatim>\<open>MessageList\<close>\<close>

subsection \<open>The message list\<close>

record list_message =
  m_id :: int
  m_text :: string
  m_date :: int
  m_fromId :: "string option"
  m_replyToMsgId :: "int option"

text \<open>The state update of the \<^verbatim>\<open>message\<close> case: \<^verbatim>\<open>some\<close>, then prepend and \<^verbatim>\<open>slice(0, 100)\<close>.\<close>

definition add_message :: "list_message \<Rightarrow> list_message list \<Rightarrow> list_message list" where
  "add_message newMessage prev =
     (if list_ex (\<lambda>m. m_id m = m_id newMessage) prev then prev
      else take 100 (newMessage # prev))"

fun add_messages :: "list_message list \<Rightarrow> list_message list \<Rightarrow> list_message list" where
  "add_messages [] prev = prev"
| "add_messages (newMessage # events) prev = add_messages events (add_message newMessage prev)"

definition list_invariant :: "list_message list \<Rightarrow> bool" where
  "list_invariant xs = (distinct (map m_id xs) \<and> length xs \<le> 100)"

subsection \<open>Reconnection\<close>

text \<open>
  The references and the state the reconnection logic uses. \<open>reconnectTimeoutRef\<close> is
  the delay of the pending timeout, \<open>None\<close> when none is pending; \<open>eventSourceRef\<close> is
  the number of the current \<^verbatim>\<open>EventSource\<close>; \<open>visible\<close> is
  \<^verbatim>\<open>document.visibilityState === 'visible'\<close>. \<open>scheduled\<close> lists the delays of all
  timeouts that \<^verbatim>\<open>reconnect\<close> has set, in order.
\<close>

record component =
  reconnectAttemptsRef :: nat
  reconnectTimeoutRef :: "nat option"
  eventSourceRef :: "nat option"
  isActiveRef :: bool
  connected :: bool
  visible :: bool
  sources :: nat
  scheduled :: "nat list"

text \<open>
  \<^verbatim>\<open>Math.min(1000 * Math.pow(2, n), 30000)\<close>. The floating-point power is exact as long
  as it is finite and is \<^verbatim>\<open>Infinity\<close> afterwards, so the minimum is the one of the
  natural numbers.
\<close>

definition backoff_delay :: "nat \<Rightarrow> nat" where
  "backoff_delay attempts = min (1000 * 2 ^ attempts) 30000"

definition reconnect :: "component \<Rightarrow> component" where
  "reconnect s =
     (let delay = backoff_delay (reconnectAttemptsRef s)
      in s \<lparr> eventSourceRef := None,
             reconnectTimeoutRef := Some delay,
             scheduled := scheduled s @ [delay] \<rparr>)"

definition setupEventStream :: "component \<Rightarrow> component" where
  "setupEventStream s = s \<lparr> eventSourceRef := Some (sources s), sources := Suc (sources s) \<rparr>"

text \<open>The callback of the timeout that \<^verbatim>\<open>reconnect\<close> sets.\<close>

definition timeout_fires :: "component \<Rightarrow> component" where
  "timeout_fires s =
     (case reconnectTimeoutRef s of
        None \<Rightarrow> s
      | Some _ \<Rightarrow>
          (let s1 = s \<lparr> reconnectTimeoutRef := None \<rparr>
           in if isActiveRef s1 \<and> visible s1
              then (setupEventStream s1) \<lparr> reconnectAttemptsRef := Suc (reconnectAttemptsRef s1) \<rparr>
              else s1))"

definition onopen :: "component \<Rightarrow> component" where
  "onopen s = s \<lparr> reconnectAttemptsRef := 0 \<rparr>"

definition onerror :: "component \<Rightarrow> component" where
  "onerror s =
     (let s1 = s \<lparr> connected := False, eventSourceRef := None \<rparr>
      in if isActiveRef s1 \<and> visible s1 then reconnect s1 else s1)"

text \<open>
  One round of a failing connection: the channel reports an error, and the timeout that
  was set fires and opens the next channel.
\<close>

fun failed_rounds :: "nat \<Rightarrow> component \<Rightarrow> component" where
  "failed_rounds 0 s = s"
| "failed_rounds (Suc n) s = failed_rounds n (timeout_fires (onerror s))"

section \<open>Properties of the wrapper\<close>

subsection \<open>Strings\<close>

lemma digit_char_not_dash: "k < 10 \<Longrightarrow> digit_char k \<noteq> CHR ''-''"
proof -
  assume "k < 10"
  then have "k \<in> {0,1,2,3,4,5,6,7,8,9}" by auto
  then show ?thesis unfolding digit_char_def by auto
qed

lemma dash_notin_nat_toString: "CHR ''-'' \<notin> set (nat_toString n)"
proof (induction n rule: nat_toString.induct)
  case (1 n)
  show ?case
  proof (cases "n < 10")
    case True
    then show ?thesis using digit_char_not_dash[of n] by (subst nat_toString.simps) simp
  next
    case False
    then show ?thesis using 1 digit_char_not_dash[of "n mod 10"]
      by (subst nat_toString.simps) simp
  qed
qed

lemma dash_notin_tl_int_toString: "CHR ''-'' \<notin> set (tl (int_toString i))"
proof (cases "i < 0")
  case True
  then show ?thesis by (simp add: int_toString_def dash_notin_nat_toString)
next
  case False
  have "set (tl (nat_toString (nat i))) \<subseteq> set (nat_toString (nat i))"
    by (cases "nat_toString (nat i)") auto
  with False show ?thesis using dash_notin_nat_toString[of "nat i"]
    by (auto simp: int_toString_def)
qed

lemma replace_first_no_occurrence: "\<not> sublist pat s \<Longrightarrow> replace_first pat rep s = s"
proof (induction s)
  case Nil
  then show ?case by auto
next
  case (Cons c cs)
  then show ?case by (simp add: sublist_Cons_right)
qed

lemma not_sublist_butlast:
  assumes "pat \<noteq> []"
  shows "\<not> sublist pat (butlast pat)"
proof
  assume "sublist pat (butlast pat)"
  then have "length pat \<le> length (butlast pat)" by (rule sublist_length_le)
  moreover have "length (butlast pat) < length pat" using assms by simp
  ultimately show False by arith
qed

lemma prefix_cut:
  assumes "prefix pat (a @ pat @ b)" and "a \<noteq> []" and "pat \<noteq> []"
  shows "prefix pat (a @ butlast pat)"
proof -
  have "prefix (a @ butlast pat) (a @ pat @ b)"
    using \<open>pat \<noteq> []\<close> by (simp add: prefix_def) (metis append_butlast_last_id append_assoc)
  moreover have "length pat \<le> length (a @ butlast pat)"
    using \<open>a \<noteq> []\<close> \<open>pat \<noteq> []\<close> by (cases a) auto
  ultimately show ?thesis using assms(1) prefix_length_prefix by blast
qed

lemma replace_first_at_first:
  "pat \<noteq> [] \<Longrightarrow> \<not> sublist pat (a @ butlast pat) \<Longrightarrow>
   replace_first pat rep (a @ pat @ b) = a @ rep @ b"
proof (induction a)
  case Nil
  then show ?case by (cases pat) auto
next
  case (Cons x a)
  have np: "\<not> prefix pat ((x # a) @ pat @ b)"
  proof
    assume "prefix pat ((x # a) @ pat @ b)"
    then have "prefix pat ((x # a) @ butlast pat)"
      using prefix_cut[of pat "x # a" b] Cons.prems(1) by simp
    then show False using Cons.prems(2) by (meson prefix_imp_sublist)
  qed
  have "\<not> sublist pat (a @ butlast pat)"
    using Cons.prems(2) by (simp add: sublist_Cons_right)
  with Cons.IH Cons.prems(1) have "replace_first pat rep (a @ pat @ b) = a @ rep @ b" by simp
  with np show ?case by simp
qed

lemma replace_first_decompose:
  "pat \<noteq> [] \<Longrightarrow> sublist pat s \<Longrightarrow>
   \<exists>a b. s = a @ pat @ b \<and> \<not> sublist pat (a @ butlast pat)
         \<and> replace_first pat rep s = a @ rep @ b"
proof (induction s)
  case Nil
  then show ?case by simp
next
  case (Cons c cs)
  show ?case
  proof (cases "prefix pat (c # cs)")
    case True
    then obtain b where b: "c # cs = pat @ b" by (auto simp: prefix_def)
    have "replace_first pat rep (c # cs) = rep @ drop (length pat) (c # cs)"
      using True by simp
    then have "replace_first pat rep (c # cs) = rep @ b" by (simp only: b append_eq_conv_conj drop_append) simp
    with b not_sublist_butlast[OF Cons.prems(1)] show ?thesis
      by (intro exI[of _ "[]"] exI[of _ b]) simp
  next
    case False
    with Cons.prems(2) have "sublist pat cs" by (simp add: sublist_Cons_right)
    with Cons.IH Cons.prems(1) obtain a b where
      ab: "cs = a @ pat @ b" "\<not> sublist pat (a @ butlast pat)"
          "replace_first pat rep cs = a @ rep @ b" by blast
    have "\<not> prefix pat (c # a @ butlast pat)"
    proof
      assume p: "prefix pat (c # a @ butlast pat)"
      have "prefix (c # a @ butlast pat) (c # cs)"
        using ab(1) Cons.prems(1)
        by (simp add: prefix_def) (metis append_butlast_last_id append_assoc)
      with p have "prefix pat (c # cs)" by (meson prefix_order.trans)
      with False show False by simp
    qed
    with ab(2) have "\<not> sublist pat ((c # a) @ butlast pat)" by (simp add: sublist_Cons_right)
    moreover have "c # cs = (c # a) @ pat @ b" using ab(1) by simp
    moreover have "replace_first pat rep (c # cs) = (c # a) @ rep @ b"
      using False ab(3) by simp
    ultimately show ?thesis by blast
  qed
qed

lemma first_occurrence_removed_iff:
  assumes "pat \<noteq> []"
  shows "first_occurrence_removed pat s r \<longleftrightarrow> r = replace_first pat [] s"
proof (cases "sublist pat s")
  case False
  then show ?thesis
    by (simp add: first_occurrence_removed_def replace_first_no_occurrence)
next
  case True
  show ?thesis
  proof
    assume "first_occurrence_removed pat s r"
    with True obtain a b where "s = a @ pat @ b" "\<not> sublist pat (a @ butlast pat)" "r = a @ b"
      by (auto simp: first_occurrence_removed_def)
    then show "r = replace_first pat [] s"
      using replace_first_at_first[OF assms, of a "[]" b] by simp
  next
    assume r: "r = replace_first pat [] s"
    from replace_first_decompose[OF assms True, of "[]"] obtain a b where
      "s = a @ pat @ b" "\<not> sublist pat (a @ butlast pat)" "replace_first pat [] s = a @ b"
      by auto
    with r True show "first_occurrence_removed pat s r"
      unfolding first_occurrence_removed_def by auto
  qed
qed

lemma replace_first_leading_only:
  assumes "CHR ''-'' \<notin> set (tl s)"
  shows "replace_first ''-100'' [] s = remove_leading_prefix ''-100'' s"
proof (cases s)
  case Nil
  then show ?thesis by (simp add: remove_leading_prefix_def)
next
  case (Cons c cs)
  show ?thesis
  proof (cases "prefix ''-100'' s")
    case True
    then show ?thesis using Cons by (simp add: remove_leading_prefix_def)
  next
    case False
    have "\<not> sublist ''-100'' cs"
    proof
      assume "sublist ''-100'' cs"
      then have "set ''-100'' \<subseteq> set cs" by (rule set_mono_sublist)
      with assms Cons show False by simp
    qed
    then have cs: "replace_first ''-100'' [] cs = cs" by (rule replace_first_no_occurrence)
    from False Cons have np: "\<not> prefix ''-100'' (c # cs)" by simp
    have "replace_first ''-100'' [] (c # cs) = c # replace_first ''-100'' [] cs"
      by (simp only: replace_first.simps np if_False)
    with cs have "replace_first ''-100'' [] s = s" using Cons by simp
    moreover have "remove_leading_prefix ''-100'' s = s"
      using False by (simp only: remove_leading_prefix_def if_False)
    ultimately show ?thesis by simp
  qed
qed


lemma parseMessage_Message: "parseMessage (Message m) \<noteq> None"
  by (simp add: parseMessage_def)

lemma parseMessage_topicId:
  "parseMessage (Message m) = Some p \<Longrightarrow> p_topicId p = thread_root (msg_replyTo m)"
  by (auto simp: parseMessage_def)

lemma filter_accepts_iff:
  "filter_accepts env chatId topicId m \<longleftrightarrow>
     chat_matches chatId (msg_peerId m)
     \<and> (if strict_eq topicId env then general_topic_accepts (msg_replyTo m)
        else other_topic_accepts topicId (msg_replyTo m))"
  using parseMessage_Message [of m] by (auto simp: filter_accepts_def streamHandler_def)

lemma general_topic_accepts_iff:
  "general_topic_accepts r \<longleftrightarrow>
     (r = None \<or> (\<exists>h. r = Some h \<and> (replyToTopId h = Value 1 \<or> forumTopic h = Value True)))"
  by (cases r) (auto simp: general_topic_accepts_def has_prop_def truthy_flag_def)

lemma other_topic_accepts_root:
  "other_topic_accepts topicId r \<Longrightarrow> strict_eq (thread_root r) topicId"
  by (cases r) (auto simp: other_topic_accepts_def thread_root_def)

text \<open>
  A message without reply header is accepted by the general branch, whatever else it
  carries.
\<close>

lemma general_topic_accepts_root_messages:
  assumes "strict_eq topicId env_TOPIC_ID"
    and "chat_matches chatId (msg_peerId message)"
    and "msg_replyTo message = None"
  shows "filter_accepts env_TOPIC_ID chatId topicId message"
  using assms by (simp add: filter_accepts_iff general_topic_accepts_def)

lemma peer_1234: "chat_matches (ChatIdString ''1234'') (Some (PeerChannel 1234))"
proof -
  have "msgChatId (Some (PeerChannel 1234)) = ''1234''" by code_simp
  then show ?thesis by (simp add: chat_matches_def chatId_toString_def)
qed

text \<open>
  Claim C1, evaluated on the code. The general topic is configured as 1 and subscribed.
  A reply inside topic 7 (reply header with \<^verbatim>\<open>replyToTopId\<close> 7 and the \<^verbatim>\<open>forumTopic\<close>
  flag) is handed to \<^verbatim>\<open>onMessage\<close>, with 7 as its topic; a message posted in topic 7
  (\<^verbatim>\<open>replyToMsgId\<close> 7, no \<^verbatim>\<open>replyToTopId\<close>, the flag set) is accepted as well. Both
  have a reply header and a thread root that is not the general topic: the third test of
  the branch accepts every message that carries the \<^verbatim>\<open>forumTopic\<close> flag, against the
  comment above it (a root message or a reply to topic 1).
\<close>

theorem general_topic_accepts_foreign_topic:
  "streamHandler (Some 1) (ChatIdString ''1234'') (Some 1)
     (Some (Message
        \<lparr> msg_id = 10, msg_message = ''hi'', msg_date = 0, msg_fromId = None,
          msg_peerId = Some (PeerChannel 1234),
          msg_replyTo = Some \<lparr> replyToMsgId = Value 42, replyToTopId = Value 7,
                                 forumTopic = Value True \<rparr> \<rparr>))
     = Some \<lparr> p_id = 10, p_text = ''hi'', p_date = 0, p_fromId = None,
              p_replyToMsgId = Some 42, p_topicId = Some 7 \<rparr>
   \<and> thread_root (Some \<lparr> replyToMsgId = Value 42, replyToTopId = Value 7,
                          forumTopic = Value True \<rparr>) = Some 7
   \<and> filter_accepts (Some 1) (ChatIdString ''1234'') (Some 1)
        \<lparr> msg_id = 11, msg_message = ''hi'', msg_date = 0, msg_fromId = None,
          msg_peerId = Some (PeerChannel 1234),
          msg_replyTo = Some \<lparr> replyToMsgId = Value 7, replyToTopId = Undefined,
                                 forumTopic = Value True \<rparr> \<rparr>
   \<and> thread_root (Some \<lparr> replyToMsgId = Value 7, replyToTopId = Undefined,
                          forumTopic = Value True \<rparr>) \<noteq> Some 1"
  using peer_1234
  by (simp add: filter_accepts_iff streamHandler_def parseMessage_def strict_eq_def
      general_topic_accepts_def thread_root_def has_prop_def truthy_flag_def read_prop_def)

text \<open>
  The sibling branch disagrees: a message posted in topic 5 is rejected for the
  subscriber of topic 5, which tests \<^verbatim>\<open>replyToTopId\<close> only, and accepted for the
  subscriber of the general topic.
\<close>

lemma topic_post_rejected_by_its_subscriber:
  "\<not> filter_accepts (Some 1) (ChatIdString ''1234'') (Some 5)
        \<lparr> msg_id = 12, msg_message = ''hi'', msg_date = 0, msg_fromId = None,
          msg_peerId = Some (PeerChannel 1234),
          msg_replyTo = Some \<lparr> replyToMsgId = Value 5, replyToTopId = Undefined,
                                 forumTopic = Value True \<rparr> \<rparr>
   \<and> filter_accepts (Some 1) (ChatIdString ''1234'') (Some 1)
        \<lparr> msg_id = 12, msg_message = ''hi'', msg_date = 0, msg_fromId = None,
          msg_peerId = Some (PeerChannel 1234),
          msg_replyTo = Some \<lparr> replyToMsgId = Value 5, replyToTopId = Undefined,
                                 forumTopic = Value True \<rparr> \<rparr>"
  using peer_1234
  by (simp add: filter_accepts_iff strict_eq_def general_topic_accepts_def
      other_topic_accepts_def has_prop_def truthy_flag_def read_prop_def)

text \<open>
  The literal 1 of the second test is not the configured identifier: with the general
  topic configured as 5, a message whose thread root is 5 is rejected and a message whose
  thread root is 1 is accepted.
\<close>

lemma general_topic_literal_one:
  "\<not> filter_accepts (Some 5) (ChatIdString ''1234'') (Some 5)
        \<lparr> msg_id = 10, msg_message = ''hi'', msg_date = 0, msg_fromId = None,
          msg_peerId = Some (PeerChannel 1234),
          msg_replyTo = Some \<lparr> replyToMsgId = Value 9, replyToTopId = Value 5,
                                 forumTopic = Value False \<rparr> \<rparr>
   \<and> filter_accepts (Some 5) (ChatIdString ''1234'') (Some 5)
        \<lparr> msg_id = 10, msg_message = ''hi'', msg_date = 0, msg_fromId = None,
          msg_peerId = Some (PeerChannel 1234),
          msg_replyTo = Some \<lparr> replyToMsgId = Value 9, replyToTopId = Value 1,
                                 forumTopic = Value False \<rparr> \<rparr>"
proof -
  have "msgChatId (Some (PeerChannel 1234)) = ''1234''" by code_simp
  then have b: "chat_matches (ChatIdString ''1234'') (Some (PeerChannel 1234))"
    by (simp add: chat_matches_def chatId_toString_def)
  then show ?thesis
    by (simp add: filter_accepts_iff strict_eq_def general_topic_accepts_def
        has_prop_def truthy_flag_def)
qed

text \<open>
  Claim C2. When the subscribed \<^verbatim>\<open>topicId\<close> is not the general topic, an accepted
  message has a thread root that equals \<^verbatim>\<open>topicId\<close> exactly; a message whose thread
  root differs from \<^verbatim>\<open>topicId\<close> is rejected, and the parsed message handed to
  \<^verbatim>\<open>onMessage\<close> carries \<^verbatim>\<open>topicId\<close> as its topic.
\<close>

theorem other_topic_filter:
  assumes "\<not> strict_eq topicId env_TOPIC_ID"
  shows "(filter_accepts env_TOPIC_ID chatId topicId message \<longrightarrow>
            strict_eq (thread_root (msg_replyTo message)) topicId)
         \<and> (\<not> strict_eq (thread_root (msg_replyTo message)) topicId \<longrightarrow>
              \<not> filter_accepts env_TOPIC_ID chatId topicId message)
         \<and> (\<forall>p. streamHandler env_TOPIC_ID chatId topicId (Some (Message message)) = Some p
                \<longrightarrow> strict_eq (p_topicId p) topicId)"
proof -
  have acc: "filter_accepts env_TOPIC_ID chatId topicId message \<Longrightarrow>
      strict_eq (thread_root (msg_replyTo message)) topicId"
    using assms by (simp add: filter_accepts_iff other_topic_accepts_root)
  have "strict_eq (p_topicId p) topicId"
    if h: "streamHandler env_TOPIC_ID chatId topicId (Some (Message message)) = Some p" for p
  proof -
    from h have "filter_accepts env_TOPIC_ID chatId topicId message"
      by (simp add: filter_accepts_def)
    then have r: "strict_eq (thread_root (msg_replyTo message)) topicId" by (rule acc)
    from h have "parseMessage (Message message) = Some p"
      by (simp add: streamHandler_def split: if_splits)
    then show ?thesis using r by (simp add: parseMessage_topicId)
  qed
  with acc show ?thesis by blast
qed

theorem other_topic_filter_witness:
  "\<not> strict_eq (Some 5) (Some 1)
   \<and> filter_accepts (Some 1) (ChatIdString ''1234'') (Some 5)
       \<lparr> msg_id = 10, msg_message = ''hi'', msg_date = 0, msg_fromId = None,
         msg_peerId = Some (PeerChannel 1234),
         msg_replyTo = Some \<lparr> replyToMsgId = Value 9, replyToTopId = Value 5,
                                forumTopic = Value True \<rparr> \<rparr>
   \<and> strict_eq (thread_root (Some \<lparr> replyToMsgId = Value 9, replyToTopId = Value 5,
                                forumTopic = Value True \<rparr>)) (Some 5)"
proof -
  have a: "\<not> strict_eq (Some 5) (Some (1::int))" by (simp add: strict_eq_def)
  have "msgChatId (Some (PeerChannel 1234)) = ''1234''" by code_simp
  then have b: "chat_matches (ChatIdString ''1234'') (Some (PeerChannel 1234))"
    by (simp add: chat_matches_def chatId_toString_def)
  then have c: "filter_accepts (Some 1) (ChatIdString ''1234'') (Some 5)
       \<lparr> msg_id = 10, msg_message = ''hi'', msg_date = 0, msg_fromId = None,
         msg_peerId = Some (PeerChannel 1234),
         msg_replyTo = Some \<lparr> replyToMsgId = Value 9, replyToTopId = Value 5,
                                forumTopic = Value True \<rparr> \<rparr>"
    by (simp add: filter_accepts_iff strict_eq_def other_topic_accepts_def
        has_prop_def read_prop_def)
  show ?thesis
    using other_topic_filter [OF a, of "ChatIdString ''1234''"
       "\<lparr> msg_id = 10, msg_message = ''hi'', msg_date = 0, msg_fromId = None,
         msg_peerId = Some (PeerChannel 1234),
         msg_replyTo = Some \<lparr> replyToMsgId = Value 9, replyToTopId = Value 5,
                                forumTopic = Value True \<rparr> \<rparr>"] a c
    by simp
qed

text \<open>
  Claim C10, as amended. A message belongs to the target chat exactly when its peer
  identifier string equals the string form of \<^verbatim>\<open>chatId\<close>, or equals that string
  with the first occurrence of \<^verbatim>\<open>-100\<close> removed. A \<^verbatim>\<open>chatId\<close> that starts with
  \<^verbatim>\<open>-100\<close> therefore matches the peer identifier without the prefix, and for a
  numeric \<^verbatim>\<open>chatId\<close> the first occurrence can only be the leading prefix.
\<close>

theorem chat_filter_first_occurrence:
  "(chat_matches chatId peerId \<longleftrightarrow>
      (msgChatId peerId = chatId_toString chatId
       \<or> first_occurrence_removed ''-100'' (chatId_toString chatId) (msgChatId peerId)))
   \<and> (\<forall>rest. chatId_toString chatId = ''-100'' @ rest \<and> msgChatId peerId = rest
         \<longrightarrow> chat_matches chatId peerId)
   \<and> (\<forall>n. chat_matches (ChatIdNumber n) peerId \<longleftrightarrow> spec_chat_matches (ChatIdNumber n) peerId)"
proof -
  have 1: "chat_matches chatId peerId \<longleftrightarrow>
      (msgChatId peerId = chatId_toString chatId
       \<or> first_occurrence_removed ''-100'' (chatId_toString chatId) (msgChatId peerId))"
    by (simp add: chat_matches_def first_occurrence_removed_iff)
  have 2: "chat_matches chatId peerId"
    if "chatId_toString chatId = ''-100'' @ rest \<and> msgChatId peerId = rest" for rest
    using that by (simp add: chat_matches_def)
  have 3: "chat_matches (ChatIdNumber n) peerId \<longleftrightarrow> spec_chat_matches (ChatIdNumber n) peerId"
    for n
    by (simp add: chat_matches_def spec_chat_matches_def chatId_toString_def
        replace_first_leading_only dash_notin_tl_int_toString)
  from 1 2 3 show ?thesis by blast
qed

theorem chat_filter_first_occurrence_witness:
  "chat_matches (ChatIdString ''-1001234'') (Some (PeerChannel 1234))"
proof -
  have a: "chatId_toString (ChatIdString ''-1001234'') = ''-100'' @ ''1234''"
    by (simp add: chatId_toString_def)
  have b: "msgChatId (Some (PeerChannel 1234)) = ''1234''" by code_simp
  show ?thesis
    using chat_filter_first_occurrence
      [of "ChatIdString ''-1001234''" "Some (PeerChannel 1234)"] a b
    by blast
qed

text \<open>
  The claim as written fails on a \<^verbatim>\<open>chatId\<close> in which \<^verbatim>\<open>-100\<close> occurs after the
  first character: \<^verbatim>\<open>"12-10034".replace('-100', '')\<close> is \<^verbatim>\<open>"1234"\<close>.
\<close>

theorem chat_filter_leading_prefix_counterexample:
  "chat_matches (ChatIdString ''12-10034'') (Some (PeerChannel 1234))
   \<and> \<not> spec_chat_matches (ChatIdString ''12-10034'') (Some (PeerChannel 1234))"
proof -
  have b: "msgChatId (Some (PeerChannel 1234)) = ''1234''" by code_simp
  then show ?thesis
    by (simp add: chat_matches_def spec_chat_matches_def chatId_toString_def
        remove_leading_prefix_def)
qed

subsection \<open>The connection handle\<close>

lemma connect_live:
  "svc_client s = Some h \<Longrightarrow> is_connected s h \<Longrightarrow> connect transport s = (Inr h, s)"
  by (simp add: connect_def)

lemma connect_fresh:
  assumes "\<not> (\<exists>h. svc_client s = Some h \<and> is_connected s h)"
  shows "connect None s =
           (Inr (length (store s)),
            \<lparr> svc_client = Some (length (store s)),
              store = store s @ [\<lparr> connectionRetries = 5, tc_connected = True \<rparr>] \<rparr>)"
  using assms by (cases "svc_client s") (auto simp: connect_def Let_def)

lemma connect_failure:
  assumes "\<not> (\<exists>h. svc_client s = Some h \<and> is_connected s h)"
  shows "connect (Some e) s =
           (Inl e,
            \<lparr> svc_client = Some (length (store s)),
              store = store s @ [\<lparr> connectionRetries = 5, tc_connected = False \<rparr>] \<rparr>)"
  using assms by (cases "svc_client s") (auto simp: connect_def Let_def)

text \<open>
  Claim C9. When the wrapper holds a connected handle, \<^verbatim>\<open>connect()\<close> returns that
  handle and leaves the wrapper and the store of clients as they are, whatever the
  transport would do. Otherwise, when the transport connects, it returns a handle that
  did not exist before, stores it in the wrapper and leaves the older clients untouched.
  A call that follows a successful call returns the same handle and changes nothing.
\<close>

theorem connect_idempotent:
  "(svc_client s = Some h \<and> is_connected s h \<longrightarrow> connect transport s = (Inr h, s))
   \<and> (\<not> (\<exists>h. svc_client s = Some h \<and> is_connected s h) \<longrightarrow>
        (\<exists>s'. connect None s = (Inr (length (store s)), s')
              \<and> svc_client s' = Some (length (store s))
              \<and> is_connected s' (length (store s))
              \<and> length (store s') = Suc (length (store s))
              \<and> take (length (store s)) (store s') = store s))
   \<and> (\<forall>h' s'. connect None s = (Inr h', s') \<longrightarrow> connect transport' s' = (Inr h', s'))"
proof -
  have 1: "connect transport s = (Inr h, s)" if "svc_client s = Some h \<and> is_connected s h"
    using that by (simp add: connect_live)
  have 2: "\<exists>s'. connect None s = (Inr (length (store s)), s')
              \<and> svc_client s' = Some (length (store s))
              \<and> is_connected s' (length (store s))
              \<and> length (store s') = Suc (length (store s))
              \<and> take (length (store s)) (store s') = store s"
    if "\<not> (\<exists>h. svc_client s = Some h \<and> is_connected s h)"
    using connect_fresh [OF that] by (simp add: is_connected_def)
  have 3: "connect transport' s' = (Inr h', s')" if c: "connect None s = (Inr h', s')" for h' s'
  proof (cases "\<exists>h. svc_client s = Some h \<and> is_connected s h")
    case True
    then obtain h where h: "svc_client s = Some h" "is_connected s h" by blast
    with c have "h' = h" "s' = s" by (simp_all add: connect_live)
    with h show ?thesis by (simp add: connect_live)
  next
    case False
    from connect_fresh [OF False] c
    have "h' = length (store s)"
      and "s' = \<lparr> svc_client = Some (length (store s)),
              store = store s @ [\<lparr> connectionRetries = 5, tc_connected = True \<rparr>] \<rparr>"
      by simp_all
    then have "svc_client s' = Some h'" "is_connected s' h'"
      by (simp_all add: is_connected_def)
    then show ?thesis by (rule connect_live)
  qed
  from 1 2 3 show ?thesis by blast
qed

theorem connect_idempotent_witness:
  "connect None new_service =
     (Inr 0, \<lparr> svc_client = Some 0, store = [\<lparr> connectionRetries = 5, tc_connected = True \<rparr>] \<rparr>)
   \<and> connect None \<lparr> svc_client = Some 0, store = [\<lparr> connectionRetries = 5, tc_connected = True \<rparr>] \<rparr> =
     (Inr 0, \<lparr> svc_client = Some 0, store = [\<lparr> connectionRetries = 5, tc_connected = True \<rparr>] \<rparr>)"
proof -
  have a: "connect None new_service =
     (Inr 0, \<lparr> svc_client = Some 0, store = [\<lparr> connectionRetries = 5, tc_connected = True \<rparr>] \<rparr>)"
    by (simp add: connect_def new_service_def)
  show ?thesis
    using connect_idempotent [of new_service 0 None None] a by simp
qed

text \<open>\<^verbatim>\<open>disconnect()\<close> releases the handle and does nothing on a wrapper without handle.\<close>

lemma disconnect_released: "svc_client (disconnect s) = None"
  by (simp add: disconnect_def split: option.splits)

lemma disconnect_twice: "disconnect (disconnect s) = disconnect s"
  by (simp add: disconnect_def split: option.splits)

subsection \<open>Failure of the topic listing\<close>

text \<open>
  A failure of \<^verbatim>\<open>getForumTopics\<close> is a value the library threw, handed on as it is:
  the \<^verbatim>\<open>catch\<close> block logs and throws again, for every failure alike.
\<close>

lemma getForumTopics_failure_is_upstream:
  "fst (getForumTopics pf s chatId) = Inl e \<Longrightarrow>
     fst (connect (pf_transport pf) s) = Inl e
     \<or> pf_getEntity pf chatId = Inl e
     \<or> (\<exists>entity. pf_getEntity pf chatId = Inr entity \<and> pf_GetForumTopics pf entity = Inl e)"
  by (auto simp: getForumTopics_def split: prod.splits sum.splits)

lemma getForumTopics_rethrows:
  "connect (pf_transport pf) s = (Inr client, s') \<Longrightarrow>
   pf_getEntity pf chatId = Inr entity \<Longrightarrow>
   pf_GetForumTopics pf entity = Inl e \<Longrightarrow>
   getForumTopics pf s chatId = (Inl e, s')"
  by (simp add: getForumTopics_def)

section \<open>Properties of the fetch endpoint\<close>

lemma try_catch_total:
  "(\<And>e. \<exists>v. handler e = Inr v) \<Longrightarrow> \<exists>v s. try_catch block handler = (Inr v, s)"
  by (cases block; cases "fst block") (auto simp: try_catch_def)

text \<open>
  Claim C6. The fetch handler always returns a response, never a thrown value. When the
  call of \<^verbatim>\<open>getForumTopicMessages\<close> returns the messages, the response has status 200
  and the body \<^verbatim>\<open>{success: true, topicId, count, messages}\<close> with \<^verbatim>\<open>count\<close> the
  length of \<^verbatim>\<open>messages\<close>; when the call throws, the response has status 500 and the
  body \<^verbatim>\<open>{success: false, error, details}\<close>.
\<close>

theorem GET_messages_envelope:
  "(\<exists>resp m'. GET_messages parseInt env construct pf searchParams module_service = (Inr resp, m'))
   \<and> (\<forall>service m messages service'.
         getTelegramService construct module_service = (Inr service, m)
         \<and> getForumTopicMessages pf service
              (map_option ChatIdString (request_chatId env searchParams))
              (request_topicId parseInt env searchParams)
              (request_limit parseInt searchParams) = (Inr messages, service')
         \<longrightarrow> fst (GET_messages parseInt env construct pf searchParams module_service) =
               Inr \<lparr> status = 200,
                     body = MessagesEnvelope True (request_topicId parseInt env searchParams)
                              (length messages) messages \<rparr>)
   \<and> (\<forall>service m e service'.
         getTelegramService construct module_service = (Inr service, m)
         \<and> getForumTopicMessages pf service
              (map_option ChatIdString (request_chatId env searchParams))
              (request_topicId parseInt env searchParams)
              (request_limit parseInt searchParams) = (Inl e, service')
         \<longrightarrow> fst (GET_messages parseInt env construct pf searchParams module_service) =
               Inr \<lparr> status = 500,
                     body = FailureEnvelope False ''Failed to fetch messages''
                              (case e of Error m \<Rightarrow> m | NonError \<Rightarrow> ''Unknown error occurred'') \<rparr>)"
proof -
  have 1: "\<exists>resp m'. GET_messages parseInt env construct pf searchParams module_service = (Inr resp, m')"
    unfolding GET_messages_def by (rule try_catch_total) (simp add: Let_def)
  have 2: "fst (GET_messages parseInt env construct pf searchParams module_service) =
               Inr \<lparr> status = 200,
                     body = MessagesEnvelope True (request_topicId parseInt env searchParams)
                              (length messages) messages \<rparr>"
    if "getTelegramService construct module_service = (Inr service, m)
         \<and> getForumTopicMessages pf service
              (map_option ChatIdString (request_chatId env searchParams))
              (request_topicId parseInt env searchParams)
              (request_limit parseInt searchParams) = (Inr messages, service')"
    for service m messages service'
    using that by (simp add: GET_messages_def try_catch_def Let_def)
  have 3: "fst (GET_messages parseInt env construct pf searchParams module_service) =
               Inr \<lparr> status = 500,
                     body = FailureEnvelope False ''Failed to fetch messages''
                              (case e of Error m \<Rightarrow> m | NonError \<Rightarrow> ''Unknown error occurred'') \<rparr>"
    if "getTelegramService construct module_service = (Inr service, m)
         \<and> getForumTopicMessages pf service
              (map_option ChatIdString (request_chatId env searchParams))
              (request_topicId parseInt env searchParams)
              (request_limit parseInt searchParams) = (Inl e, service')"
    for service m e service'
    using that by (simp add: GET_messages_def try_catch_def Let_def)
  from 1 2 3 show ?thesis by blast
qed


theorem GET_messages_envelope_witness:
  "fst (GET_messages (\<lambda>t. if t = ''1'' then Some 1 else if t = ''5'' then Some 5 else None)
          \<lparr> env_SUPERGROUP_ID = Some ''-1002731547761'', env_TOPIC_ID_str = None \<rparr>
          None
          \<lparr> pf_transport = None,
            pf_getEntity = (\<lambda>c. Inr (EntityChannel 2731547761)),
            pf_GetReplies = (\<lambda>e t l. Inr (Messages
               [Message \<lparr> msg_id = 12, msg_message = ''hello'', msg_date = 1700000000,
                          msg_fromId = None, msg_peerId = None, msg_replyTo = None \<rparr>,
                MessageEmpty])),
            pf_GetForumTopics = (\<lambda>e. Inr []) \<rparr>
          \<lparr> sp_chatId = None, sp_topicId = Some ''1'', sp_limit = Some ''5'' \<rparr>
          None)
     = Inr \<lparr> status = 200,
             body = MessagesEnvelope True (Some 1) 1
                      [\<lparr> p_id = 12, p_text = ''hello'', p_date = 1700000000, p_fromId = None,
                         p_replyToMsgId = None, p_topicId = None \<rparr>] \<rparr>
   \<and> fst (GET_messages (\<lambda>t. if t = ''1'' then Some 1 else if t = ''5'' then Some 5 else None)
          \<lparr> env_SUPERGROUP_ID = Some ''-1002731547761'', env_TOPIC_ID_str = None \<rparr>
          None
          \<lparr> pf_transport = Some (Error ''Connection failed''),
            pf_getEntity = (\<lambda>c. Inr (EntityChannel 2731547761)),
            pf_GetReplies = (\<lambda>e t l. Inr MessagesNotModified),
            pf_GetForumTopics = (\<lambda>e. Inr []) \<rparr>
          \<lparr> sp_chatId = None, sp_topicId = Some ''1'', sp_limit = Some ''5'' \<rparr>
          None)
     = Inr \<lparr> status = 500,
             body = FailureEnvelope False ''Failed to fetch messages'' ''Connection failed'' \<rparr>"
proof -
  let ?parseInt = "\<lambda>t. if t = ''1'' then Some (1::int) else if t = ''5'' then Some 5 else None"
  let ?env = "\<lparr> env_SUPERGROUP_ID = Some ''-1002731547761'', env_TOPIC_ID_str = None \<rparr>"
  let ?sp = "\<lparr> sp_chatId = None, sp_topicId = Some ''1'', sp_limit = Some ''5'' \<rparr>"
  let ?ok = "\<lparr> pf_transport = None,
            pf_getEntity = (\<lambda>c. Inr (EntityChannel 2731547761)),
            pf_GetReplies = (\<lambda>e t l. Inr (Messages
               [Message \<lparr> msg_id = 12, msg_message = ''hello'', msg_date = 1700000000,
                          msg_fromId = None, msg_peerId = None, msg_replyTo = None \<rparr>,
                MessageEmpty])),
            pf_GetForumTopics = (\<lambda>e. Inr []) \<rparr>"
  let ?ko = "\<lparr> pf_transport = Some (Error ''Connection failed''),
            pf_getEntity = (\<lambda>c. Inr (EntityChannel 2731547761)),
            pf_GetReplies = (\<lambda>e t l. Inr MessagesNotModified),
            pf_GetForumTopics = (\<lambda>e. Inr []) \<rparr>"
  have t: "request_topicId ?parseInt ?env ?sp = Some 1"
    by (simp add: request_topicId_def or_else_def)
  have s: "getTelegramService None None = (Inr new_service, Some new_service)"
    by (simp add: getTelegramService_def)
  have a: "getForumTopicMessages ?ok new_service
             (map_option ChatIdString (request_chatId ?env ?sp))
             (request_topicId ?parseInt ?env ?sp) (request_limit ?parseInt ?sp)
           = (Inr [\<lparr> p_id = 12, p_text = ''hello'', p_date = 1700000000, p_fromId = None,
                      p_replyToMsgId = None, p_topicId = None \<rparr>],
              \<lparr> svc_client = Some 0,
                store = [\<lparr> connectionRetries = 5, tc_connected = True \<rparr>] \<rparr>)"
    by (simp add: getForumTopicMessages_def connect_def new_service_def parseMessage_def
        thread_root_def)
  have b: "getForumTopicMessages ?ko new_service
             (map_option ChatIdString (request_chatId ?env ?sp))
             (request_topicId ?parseInt ?env ?sp) (request_limit ?parseInt ?sp)
           = (Inl (Error ''Connection failed''),
              \<lparr> svc_client = Some 0,
                store = [\<lparr> connectionRetries = 5, tc_connected = False \<rparr>] \<rparr>)"
    by (simp add: getForumTopicMessages_def connect_def new_service_def)
  from GET_messages_envelope [of ?parseInt ?env None ?ok ?sp None] s a t
  have 1: "fst (GET_messages ?parseInt ?env None ?ok ?sp None)
     = Inr \<lparr> status = 200,
             body = MessagesEnvelope True (Some 1) 1
                      [\<lparr> p_id = 12, p_text = ''hello'', p_date = 1700000000, p_fromId = None,
                         p_replyToMsgId = None, p_topicId = None \<rparr>] \<rparr>"
    by (elim conjE allE [of _ new_service] allE [of _ "Some new_service"]) fastforce
  from GET_messages_envelope [of ?parseInt ?env None ?ko ?sp None] s b
  have 2: "fst (GET_messages ?parseInt ?env None ?ko ?sp None)
     = Inr \<lparr> status = 500,
             body = FailureEnvelope False ''Failed to fetch messages'' ''Connection failed'' \<rparr>"
    by (elim conjE allE [of _ new_service] allE [of _ "Some new_service"]) fastforce
  from 1 2 show ?thesis by simp
qed

section \<open>Properties of the display component\<close>

subsection \<open>The message list\<close>

lemma add_message_present:
  "m_id newMessage \<in> set (map m_id prev) \<Longrightarrow> add_message newMessage prev = prev"
  by (auto simp: add_message_def list_ex_iff)

lemma add_message_new:
  assumes "m_id newMessage \<notin> set (map m_id prev)"
  shows "add_message newMessage prev = newMessage # take 99 prev"
proof -
  have "\<not> list_ex (\<lambda>m. m_id m = m_id newMessage) prev"
  proof
    assume "list_ex (\<lambda>m. m_id m = m_id newMessage) prev"
    then obtain m where "m \<in> set prev" "m_id m = m_id newMessage"
      by (auto simp: list_ex_iff)
    then have "m_id newMessage \<in> m_id ` set prev" by (metis imageI)
    with assms show False by simp
  qed
  then show ?thesis by (simp add: add_message_def take_Cons')
qed

lemma distinct_map_take: "distinct (map f xs) \<Longrightarrow> distinct (map f (take n xs))"
  using distinct_take [of "map f xs" n] by (simp add: take_map)

lemma add_message_invariant:
  assumes "list_invariant prev"
  shows "list_invariant (add_message newMessage prev)"
proof (cases "m_id newMessage \<in> set (map m_id prev)")
  case True
  with assms show ?thesis by (simp add: add_message_present)
next
  case False
  have "set (take 99 prev) \<subseteq> set prev" by (rule set_take_subset)
  with False have "m_id newMessage \<notin> m_id ` set (take 99 prev)" by auto
  moreover have "distinct (map m_id (take 99 prev))"
    using assms by (simp add: list_invariant_def distinct_map_take)
  ultimately show ?thesis
    using False by (simp add: add_message_new list_invariant_def)
qed

lemma add_messages_invariant:
  "list_invariant prev \<Longrightarrow> list_invariant (add_messages events prev)"
  by (induction events arbitrary: prev) (simp_all add: add_message_invariant)

lemma add_messages_append:
  "add_messages (es @ fs) prev = add_messages fs (add_messages es prev)"
  by (induction es arbitrary: prev) simp_all

text \<open>
  Claim C3. Starting from a list with pairwise different identifiers and at most 100
  entries, the list after each event of a sequence of \<^verbatim>\<open>message\<close> events has pairwise
  different identifiers and at most 100 entries; an event whose identifier is not in
  the list puts its message at the head, before the 99 most recent entries, and an event
  whose identifier is in the list changes nothing.
\<close>

theorem message_list_invariant:
  assumes "list_invariant prev"
  shows "(\<forall>k \<le> length events.
            distinct (map m_id (add_messages (take k events) prev))
            \<and> length (add_messages (take k events) prev) \<le> 100)
         \<and> (\<forall>k < length events.
              m_id (events ! k) \<notin> set (map m_id (add_messages (take k events) prev)) \<longrightarrow>
              add_messages (take (Suc k) events) prev =
                events ! k # take 99 (add_messages (take k events) prev))
         \<and> (\<forall>k < length events.
              m_id (events ! k) \<in> set (map m_id (add_messages (take k events) prev)) \<longrightarrow>
              add_messages (take (Suc k) events) prev = add_messages (take k events) prev)"
proof -
  have inv: "list_invariant (add_messages (take k events) prev)" for k
    using assms by (rule add_messages_invariant)
  have stp: "add_messages (take (Suc k) events) prev =
        add_message (events ! k) (add_messages (take k events) prev)"
    if "k < length events" for k
    using that by (simp add: take_Suc_conv_app_nth add_messages_append)
  show ?thesis
    using inv by (auto simp: stp add_message_new add_message_present list_invariant_def)
qed

theorem message_list_invariant_witness:
  "list_invariant []
   \<and> add_messages
       [\<lparr> m_id = 7, m_text = ''a'', m_date = 1, m_fromId = None, m_replyToMsgId = None \<rparr>,
        \<lparr> m_id = 8, m_text = ''b'', m_date = 2, m_fromId = None, m_replyToMsgId = None \<rparr>,
        \<lparr> m_id = 7, m_text = ''a'', m_date = 1, m_fromId = None, m_replyToMsgId = None \<rparr>] []
     = [\<lparr> m_id = 8, m_text = ''b'', m_date = 2, m_fromId = None, m_replyToMsgId = None \<rparr>,
        \<lparr> m_id = 7, m_text = ''a'', m_date = 1, m_fromId = None, m_replyToMsgId = None \<rparr>]
   \<and> distinct (map m_id (add_messages
       [\<lparr> m_id = 7, m_text = ''a'', m_date = 1, m_fromId = None, m_replyToMsgId = None \<rparr>,
        \<lparr> m_id = 8, m_text = ''b'', m_date = 2, m_fromId = None, m_replyToMsgId = None \<rparr>,
        \<lparr> m_id = 7, m_text = ''a'', m_date = 1, m_fromId = None, m_replyToMsgId = None \<rparr>] []))"
proof -
  have a: "list_invariant []" by (simp add: list_invariant_def)
  have b: "add_messages
       [\<lparr> m_id = 7, m_text = ''a'', m_date = 1, m_fromId = None, m_replyToMsgId = None \<rparr>,
        \<lparr> m_id = 8, m_text = ''b'', m_date = 2, m_fromId = None, m_replyToMsgId = None \<rparr>,
        \<lparr> m_id = 7, m_text = ''a'', m_date = 1, m_fromId = None, m_replyToMsgId = None \<rparr>] []
     = [\<lparr> m_id = 8, m_text = ''b'', m_date = 2, m_fromId = None, m_replyToMsgId = None \<rparr>,
        \<lparr> m_id = 7, m_text = ''a'', m_date = 1, m_fromId = None, m_replyToMsgId = None \<rparr>]"
    by (simp add: add_message_def)
  from message_list_invariant [OF a, of
       "[\<lparr> m_id = 7, m_text = ''a'', m_date = 1, m_fromId = None, m_replyToMsgId = None \<rparr>,
        \<lparr> m_id = 8, m_text = ''b'', m_date = 2, m_fromId = None, m_replyToMsgId = None \<rparr>,
        \<lparr> m_id = 7, m_text = ''a'', m_date = 1, m_fromId = None, m_replyToMsgId = None \<rparr>]"]
  have "distinct (map m_id (add_messages (take 3
       [\<lparr> m_id = 7, m_text = ''a'', m_date = 1, m_fromId = None, m_replyToMsgId = None \<rparr>,
        \<lparr> m_id = 8, m_text = ''b'', m_date = 2, m_fromId = None, m_replyToMsgId = None \<rparr>,
        \<lparr> m_id = 7, m_text = ''a'', m_date = 1, m_fromId = None, m_replyToMsgId = None \<rparr>]) []))"
    by (elim conjE allE [of _ "3::nat"]) simp
  then show ?thesis using a b by simp
qed


subsection \<open>Reconnection delays\<close>

lemma failed_round_attempts:
  assumes "isActiveRef s" "visible s"
  shows "reconnectAttemptsRef (timeout_fires (onerror s)) = Suc (reconnectAttemptsRef s)
         \<and> isActiveRef (timeout_fires (onerror s)) \<and> visible (timeout_fires (onerror s))"
  using assms by (simp add: onerror_def reconnect_def timeout_fires_def setupEventStream_def Let_def)

lemma failed_rounds_attempts:
  "isActiveRef s \<Longrightarrow> visible s \<Longrightarrow>
   reconnectAttemptsRef (failed_rounds n s) = reconnectAttemptsRef s + n
   \<and> isActiveRef (failed_rounds n s) \<and> visible (failed_rounds n s)"
proof (induction n arbitrary: s)
  case 0
  then show ?case by simp
next
  case (Suc n)
  from failed_round_attempts [OF Suc.prems]
  have r: "reconnectAttemptsRef (timeout_fires (onerror s)) = Suc (reconnectAttemptsRef s)"
    and a: "isActiveRef (timeout_fires (onerror s))"
    and v: "visible (timeout_fires (onerror s))" by simp_all
  from Suc.IH [OF a v] r show ?case by simp
qed

lemma onerror_delay:
  "isActiveRef s \<Longrightarrow> visible s \<Longrightarrow>
   reconnectTimeoutRef (onerror s) = Some (backoff_delay (reconnectAttemptsRef s))
   \<and> scheduled (onerror s) = scheduled s @ [backoff_delay (reconnectAttemptsRef s)]"
  by (simp add: onerror_def reconnect_def Let_def)

lemma counter_unchanged:
  "reconnectAttemptsRef (onerror s) = reconnectAttemptsRef s
   \<and> reconnectAttemptsRef (reconnect s) = reconnectAttemptsRef s"
  by (simp add: onerror_def reconnect_def Let_def)

text \<open>
  Claim C7, as amended. While the component is mounted and the tab visible, a channel
  error sets the reconnect timeout to \<open>min (1000 * 2 ^ k) 30000\<close> milliseconds, where
  \<open>k\<close> is the attempt counter; the counter is set to zero by a successful open, is
  incremented when the timeout fires and makes its reconnect attempt, and is left alone
  by a channel error and by \<^verbatim>\<open>reconnect\<close>. Hence, with the counter at zero and each of
  the first \<open>N - 1\<close> consecutive errors followed by its reconnect attempt, the \<open>N\<close>-th
  error sets the delay \<open>min (1000 * 2 ^ (N - 1)) 30000\<close>.
\<close>

theorem reconnect_backoff:
  assumes "isActiveRef s" and "visible s"
  shows "reconnectTimeoutRef (onerror s)
           = Some (min (1000 * 2 ^ reconnectAttemptsRef s) 30000)
         \<and> reconnectAttemptsRef (timeout_fires (onerror s)) = Suc (reconnectAttemptsRef s)
         \<and> (reconnectAttemptsRef s = 0 \<and> 1 \<le> N \<longrightarrow>
              reconnectTimeoutRef (onerror (failed_rounds (N - 1) s))
                = Some (min (1000 * 2 ^ (N - 1)) 30000)
              \<and> last (scheduled (onerror (failed_rounds (N - 1) s)))
                = min (1000 * 2 ^ (N - 1)) 30000)
         \<and> (\<forall>s'. reconnectAttemptsRef (onopen s') = 0
                \<and> reconnectAttemptsRef (onerror s') = reconnectAttemptsRef s'
                \<and> reconnectAttemptsRef (reconnect s') = reconnectAttemptsRef s')"
proof -
  have 1: "reconnectTimeoutRef (onerror s)
           = Some (min (1000 * 2 ^ reconnectAttemptsRef s) 30000)"
    using onerror_delay [OF assms] by (simp add: backoff_delay_def)
  have 2: "reconnectAttemptsRef (timeout_fires (onerror s)) = Suc (reconnectAttemptsRef s)"
    using failed_round_attempts [OF assms] by simp
  have 3: "reconnectTimeoutRef (onerror (failed_rounds (N - 1) s))
                = Some (min (1000 * 2 ^ (N - 1)) 30000)
              \<and> last (scheduled (onerror (failed_rounds (N - 1) s)))
                = min (1000 * 2 ^ (N - 1)) 30000"
    if z: "reconnectAttemptsRef s = 0 \<and> 1 \<le> N"
  proof -
    from failed_rounds_attempts [OF assms, of "N - 1"] z
    have f: "reconnectAttemptsRef (failed_rounds (N - 1) s) = N - 1"
      "isActiveRef (failed_rounds (N - 1) s)" "visible (failed_rounds (N - 1) s)"
      by simp_all
    from onerror_delay [OF f(2,3)] f(1) show ?thesis by (simp add: backoff_delay_def)
  qed
  have 4: "reconnectAttemptsRef (onopen s') = 0
                \<and> reconnectAttemptsRef (onerror s') = reconnectAttemptsRef s'
                \<and> reconnectAttemptsRef (reconnect s') = reconnectAttemptsRef s'" for s'
    using counter_unchanged [of s'] by (simp add: onopen_def)
  from 1 2 3 4 show ?thesis by blast
qed

theorem reconnect_backoff_witness:
  "reconnectTimeoutRef (onerror (failed_rounds 2 (onopen
      \<lparr> reconnectAttemptsRef = 4, reconnectTimeoutRef = None, eventSourceRef = Some 0,
        isActiveRef = True, connected = True, visible = True, sources = 1,
        scheduled = [] \<rparr>))) = Some 4000"
  using reconnect_backoff [of
      "onopen \<lparr> reconnectAttemptsRef = 4, reconnectTimeoutRef = None, eventSourceRef = Some 0,
        isActiveRef = True, connected = True, visible = True, sources = 1,
        scheduled = [] \<rparr>" 3]
  by (simp add: numeral_2_eq_2 onopen_def)

text \<open>
  The claim as written fails: it counts channel errors, the code counts reconnect
  attempts. Two channel errors with no timeout firing between them both set 1000
  milliseconds, where the claim has 2000 for the second.
\<close>

theorem reconnect_backoff_counterexample:
  "scheduled (onerror (onerror
      \<lparr> reconnectAttemptsRef = 0, reconnectTimeoutRef = None, eventSourceRef = Some 0,
        isActiveRef = True, connected = True, visible = True, sources = 1,
        scheduled = [] \<rparr>)) = [1000, 1000]
   \<and> reconnectTimeoutRef (onerror (onerror
      \<lparr> reconnectAttemptsRef = 0, reconnectTimeoutRef = None, eventSourceRef = Some 0,
        isActiveRef = True, connected = True, visible = True, sources = 1,
        scheduled = [] \<rparr>)) \<noteq> Some (min (1000 * 2 ^ (2 - 1)) 30000)"
  by (simp add: onerror_def reconnect_def backoff_delay_def Let_def)

text \<open>
  Further schedules in which errors and attempts are not in step: a third error raised
  while the second timeout is pending; a first channel error after a reconnect that the
  Refresh button or the watchdog started; an error while the tab is hidden, which sets
  no timeout.
\<close>

lemma reconnect_other_schedules:
  "scheduled (onerror (onerror (timeout_fires (onerror
      \<lparr> reconnectAttemptsRef = 0, reconnectTimeoutRef = None, eventSourceRef = Some 0,
        isActiveRef = True, connected = True, visible = True, sources = 1,
        scheduled = [] \<rparr>)))) = [1000, 2000, 2000]
   \<and> scheduled (onerror (timeout_fires (reconnect
      \<lparr> reconnectAttemptsRef = 0, reconnectTimeoutRef = None, eventSourceRef = Some 0,
        isActiveRef = True, connected = True, visible = True, sources = 1,
        scheduled = [] \<rparr>))) = [1000, 2000]
   \<and> scheduled (onerror
      \<lparr> reconnectAttemptsRef = 0, reconnectTimeoutRef = None, eventSourceRef = Some 0,
        isActiveRef = True, connected = True, visible = False, sources = 1,
        scheduled = [] \<rparr>) = []"
  by (simp add: onerror_def reconnect_def timeout_fires_def setupEventStream_def
      backoff_delay_def Let_def)

section \<open>Properties of the stream endpoint\<close>

lemmas stream_defs =
  GET_stream_def subscribe_resolved_def subscribe_rejected_def new_message_event_def
  heartbeat_def cancel_def abort_listener_def teardown_def upd_conn_def onMessage_def
  enqueue_def

lemma step_length: "length (conns s) \<le> length (conns (step rt a s))"
  by (cases a) (auto simp: stream_defs Let_def split: option.splits)

lemma run_length: "length (conns s) \<le> length (conns (run rt as s))"
proof (induction as arbitrary: s)
  case Nil
  then show ?case by simp
next
  case (Cons a as)
  have "length (conns s) \<le> length (conns (step rt a s))" by (rule step_length)
  also have "\<dots> \<le> length (conns (run rt as (step rt a s)))" by (rule Cons.IH)
  finally show ?case by simp
qed

lemma step_inactive:
  assumes "c < length (conns s)" and "\<not> isStreamActive (conns s ! c)"
  shows "\<not> isStreamActive (conns (step rt a s) ! c) \<and> pushed c (step rt a s) = pushed c s"
  using assms
  by (cases a)
     (auto simp: stream_defs pushed_def Let_def nth_append nth_list_update
           split: option.splits)

lemma run_inactive:
  "c < length (conns s) \<Longrightarrow> \<not> isStreamActive (conns s ! c) \<Longrightarrow>
   \<not> isStreamActive (conns (run rt as s) ! c) \<and> pushed c (run rt as s) = pushed c s
   \<and> c < length (conns (run rt as s))"
proof (induction as arbitrary: s)
  case Nil
  then show ?case by simp
next
  case (Cons a as)
  from step_inactive [OF Cons.prems, of rt a]
  have i: "\<not> isStreamActive (conns (step rt a s) ! c)"
    and p: "pushed c (step rt a s) = pushed c s" by simp_all
  have l: "c < length (conns (step rt a s))"
    using Cons.prems(1) step_length [of s rt a] by simp
  from Cons.IH [OF l i] p show ?case by simp
qed

lemma dead_after_clear: "t < length xs \<Longrightarrow> \<not> xs ! t \<Longrightarrow> \<not> xs [x := False] ! t"
  by (cases "x = t") simp_all

lemma step_dead_timer:
  assumes "t < length (timers s)" and "\<not> timers s ! t"
  shows "t < length (timers (step rt a s)) \<and> \<not> timers (step rt a s) ! t"
  using assms
  by (cases a)
     (auto simp: stream_defs Let_def nth_append dead_after_clear split: option.splits)

lemma run_dead_timer:
  "t < length (timers s) \<Longrightarrow> \<not> timers s ! t \<Longrightarrow>
   t < length (timers (run rt as s)) \<and> \<not> timers (run rt as s) ! t"
proof (induction as arbitrary: s)
  case Nil
  then show ?case by simp
next
  case (Cons a as)
  from step_dead_timer [OF Cons.prems, of rt a] Cons.IH show ?case by simp
qed

lemma wf_init: "wf_module init_module"
  by (simp add: wf_module_def init_module_def)

lemma wf_step: "wf_module s \<Longrightarrow> wf_module (step rt a s)"
  by (cases a)
     (auto simp: wf_module_def stream_defs Let_def nth_append nth_list_update less_Suc_eq
           split: option.splits if_splits)

lemma wf_run: "wf_module s \<Longrightarrow> wf_module (run rt as s)"
  by (induction as arbitrary: s) (simp_all add: wf_step)


lemma run_append: "run rt (as @ bs) s = run rt bs (run rt as s)"
  by (induction as arbitrary: s) simp_all

lemma teardown_effect:
  assumes "wf_module s" and "c < length (conns s)" and "a = Cancel c \<or> a = Abort c"
  shows "\<not> isStreamActive (conns (step rt a s) ! c)"
    and "pushed c (step rt a s) = pushed c s"
    and "disconnect_calls (step rt a s) = disconnect_calls s @ [length (conns s) - 1]"
    and "heartbeatInterval (conns s ! c) = Some t \<Longrightarrow>
           t < length (timers (step rt a s)) \<and> \<not> timers (step rt a s) ! t"
  using assms
  by (auto simp: wf_module_def stream_defs pushed_def Let_def split: option.splits)

lemma reachable_wf: "wf_module (run rt acts init_module)"
  using wf_init by (rule wf_run)

lemma connections_distinct_wrappers:
  assumes "s = run rt acts init_module" and "i < length (conns s)" and "j < length (conns s)"
    and "i \<noteq> j"
  shows "c_service (conns s ! i) \<noteq> c_service (conns s ! j)"
  using assms reachable_wf [of rt acts] by (simp add: wf_module_def)

lemma teardown_disconnects_latest:
  assumes "s = run rt acts init_module" and "c < length (conns s)"
    and "a = Cancel c \<or> a = Abort c"
  shows "disconnect_calls (step rt a s) =
           disconnect_calls s @ [c_service (conns s ! (length (conns s) - 1))]"
proof -
  have wf: "wf_module s" using assms(1) by (simp add: reachable_wf)
  with assms(2) have "c_service (conns s ! (length (conns s) - 1)) = length (conns s) - 1"
    by (simp add: wf_module_def)
  with teardown_effect(3) [OF wf assms(2,3)] show ?thesis by simp
qed

lemma heartbeat_inactive:
  assumes "c < length (conns s)" and "\<not> isStreamActive (conns s ! c)"
    and "heartbeatInterval (conns (heartbeat c s) ! c) = Some t"
  shows "\<not> timer_live (heartbeat c s) t"
  using assms
  by (auto simp: heartbeat_def timer_live_def split: option.splits if_splits)

text \<open>
  Claim C4, evaluated on the code. Two connections are opened, each subscribing on a
  wrapper of its own (0 and 1); when the first connection is cancelled,
  \<^verbatim>\<open>disconnect()\<close> is called on wrapper 1, the wrapper of the second connection, and
  never on wrapper 0: the handlers read the module variable, which the second request has
  overwritten.
\<close>

theorem stream_teardown_latest_wrapper:
  "c_service (conns (run rt [Open sp1, Open sp2, Cancel 0] init_module) ! 0) = 0
   \<and> c_service (conns (run rt [Open sp1, Open sp2, Cancel 0] init_module) ! 1) = 1
   \<and> stream_calls (run rt [Open sp1, Open sp2, Cancel 0] init_module) = [0, 1]
   \<and> disconnect_calls (run rt [Open sp1, Open sp2, Cancel 0] init_module) = [1]"
  by (simp add: stream_defs init_module_def Let_def)


text \<open>
  Claim C8, as amended. In a state the module reaches, once \<^verbatim>\<open>cancel\<close> or the abort
  listener of a connection has run: the inactive flag of the connection is set and stays
  set; no message or ping event is enqueued on the connection any more; the heartbeat
  timer the connection holds at that moment is cleared and stays cleared, and a timer
  installed afterwards (the subscription resolved after the teardown) is cleared at its
  first callback; one call of \<^verbatim>\<open>disconnect()\<close> is made, and it is made on the
  connection's own wrapper when the connection is the latest one opened.
\<close>

theorem teardown_stops_stream:
  assumes "s = run rt acts init_module" and "c < length (conns s)"
    and "a = Cancel c \<or> a = Abort c"
  shows "(\<forall>bs. \<not> isStreamActive (conns (run rt bs (step rt a s)) ! c))
       \<and> (\<forall>bs. pushed c (run rt bs (step rt a s)) = pushed c s)
       \<and> (\<forall>bs t. heartbeatInterval (conns s ! c) = Some t \<longrightarrow>
                  \<not> timer_live (run rt bs (step rt a s)) t)
       \<and> (\<forall>bs t. heartbeatInterval (conns (run rt (bs @ [Heartbeat c]) (step rt a s)) ! c) = Some t
              \<longrightarrow> \<not> timer_live (run rt (bs @ [Heartbeat c]) (step rt a s)) t)
       \<and> (\<exists>w. disconnect_calls (step rt a s) = disconnect_calls s @ [w])
       \<and> (Suc c = length (conns s) \<longrightarrow>
            disconnect_calls (step rt a s) = disconnect_calls s @ [c_service (conns s ! c)])"
proof -
  have wf: "wf_module s" using assms(1) wf_init by (simp add: wf_run)
  note td = teardown_effect [OF wf assms(2,3)]
  have len: "c < length (conns (step rt a s))"
    using assms(2) step_length [of s rt a] by simp
  have after: "\<not> isStreamActive (conns (run rt bs (step rt a s)) ! c)
      \<and> pushed c (run rt bs (step rt a s)) = pushed c (step rt a s)
      \<and> c < length (conns (run rt bs (step rt a s)))" for bs
    using run_inactive [OF len td(1)] by simp
  have 1: "\<forall>bs. \<not> isStreamActive (conns (run rt bs (step rt a s)) ! c)"
    using after by simp
  have 2: "\<forall>bs. pushed c (run rt bs (step rt a s)) = pushed c s"
    using after td(2) by simp
  have 3: "\<not> timer_live (run rt bs (step rt a s)) t"
    if "heartbeatInterval (conns s ! c) = Some t" for bs t
    using run_dead_timer [of t "step rt a s" rt bs] td(4) [OF that]
    by (simp add: timer_live_def)
  have 4: "\<not> timer_live (run rt (bs @ [Heartbeat c]) (step rt a s)) t"
    if "heartbeatInterval (conns (run rt (bs @ [Heartbeat c]) (step rt a s)) ! c) = Some t"
    for bs t
  proof -
    from after [of bs] have "c < length (conns (run rt bs (step rt a s)))"
      and "\<not> isStreamActive (conns (run rt bs (step rt a s)) ! c)" by simp_all
    then show ?thesis using that heartbeat_inactive by (simp add: run_append)
  qed
  have 5: "\<exists>w. disconnect_calls (step rt a s) = disconnect_calls s @ [w]"
    using td(3) by blast
  have 6: "disconnect_calls (step rt a s) = disconnect_calls s @ [c_service (conns s ! c)]"
    if "Suc c = length (conns s)"
  proof -
    from wf assms(2) have "c_service (conns s ! c) = c" by (simp add: wf_module_def)
    with td(3) that show ?thesis by simp
  qed
  from 1 2 3 4 5 6 show ?thesis by blast
qed

lemma example_run:
  "run rt [Open sp, SubscribeResolved 0] init_module =
     \<lparr> telegramService = Some 0, services = 1,
       conns = [\<lparr> c_service = 0, c_chatId = request_chatId (rt_env rt) sp,
                  c_topicId = request_topicId (rt_parseInt rt) (rt_env rt) sp,
                  isStreamActive = True, heartbeatInterval = Some 0,
                  c_awaiting = False, c_handler = True, c_closed = False,
                  enqueued = [ConnectedEvent (request_topicId (rt_parseInt rt) (rt_env rt) sp)
                                (request_chatId (rt_env rt) sp)] \<rparr>],
       timers = [True], stream_calls = [0], disconnect_calls = [] \<rparr>"
  by (simp add: stream_defs init_module_def Let_def)

theorem teardown_stops_stream_witness:
  "disconnect_calls
     (step \<lparr> rt_parseInt = (\<lambda>t. Some 1), rt_Number = (\<lambda>v. Some 1),
             rt_env = \<lparr> env_SUPERGROUP_ID = Some ''-1002731547761'',
                        env_TOPIC_ID_str = Some ''1'' \<rparr> \<rparr>
        (Cancel 0)
        (run \<lparr> rt_parseInt = (\<lambda>t. Some 1), rt_Number = (\<lambda>v. Some 1),
               rt_env = \<lparr> env_SUPERGROUP_ID = Some ''-1002731547761'',
                          env_TOPIC_ID_str = Some ''1'' \<rparr> \<rparr>
           [Open \<lparr> sp_chatId = None, sp_topicId = None, sp_limit = None \<rparr>,
            SubscribeResolved 0] init_module)) = [0]
   \<and> \<not> timer_live
     (step \<lparr> rt_parseInt = (\<lambda>t. Some 1), rt_Number = (\<lambda>v. Some 1),
             rt_env = \<lparr> env_SUPERGROUP_ID = Some ''-1002731547761'',
                        env_TOPIC_ID_str = Some ''1'' \<rparr> \<rparr>
        (Cancel 0)
        (run \<lparr> rt_parseInt = (\<lambda>t. Some 1), rt_Number = (\<lambda>v. Some 1),
               rt_env = \<lparr> env_SUPERGROUP_ID = Some ''-1002731547761'',
                          env_TOPIC_ID_str = Some ''1'' \<rparr> \<rparr>
           [Open \<lparr> sp_chatId = None, sp_topicId = None, sp_limit = None \<rparr>,
            SubscribeResolved 0] init_module)) 0"
proof -
  let ?rt = "\<lparr> rt_parseInt = (\<lambda>t. Some 1), rt_Number = (\<lambda>v. Some 1),
             rt_env = \<lparr> env_SUPERGROUP_ID = Some ''-1002731547761'',
                        env_TOPIC_ID_str = Some ''1'' \<rparr> \<rparr>"
  let ?sp = "\<lparr> sp_chatId = None, sp_topicId = None, sp_limit = None \<rparr>"
  let ?s = "run ?rt [Open ?sp, SubscribeResolved 0] init_module"
  have len: "0 < length (conns ?s)" by (subst example_run) simp
  have last: "Suc 0 = length (conns ?s)" by (subst example_run) simp
  have hb: "heartbeatInterval (conns ?s ! 0) = Some 0" by (subst example_run) simp
  have w: "c_service (conns ?s ! 0) = 0" by (subst example_run) simp
  have d: "disconnect_calls ?s = []" by (subst example_run) simp
  from teardown_stops_stream [OF refl len, of "Cancel 0"]
  have "(\<forall>bs t. heartbeatInterval (conns ?s ! 0) = Some t \<longrightarrow>
                  \<not> timer_live (run ?rt bs (step ?rt (Cancel 0) ?s)) t)
       \<and> (Suc 0 = length (conns ?s) \<longrightarrow>
            disconnect_calls (step ?rt (Cancel 0) ?s)
              = disconnect_calls ?s @ [c_service (conns ?s ! 0)])"
    by blast
  then have "\<not> timer_live (run ?rt [] (step ?rt (Cancel 0) ?s)) 0"
    and "disconnect_calls (step ?rt (Cancel 0) ?s) = disconnect_calls ?s @ [c_service (conns ?s ! 0)]"
    using hb last by blast+
  then show ?thesis using w d by simp
qed

text \<open>
  The claim as written fails. Two connections are opened, the request of the first is
  aborted while its subscription is pending, and the subscription then resolves: the
  abort listener has run, yet the first connection holds a live heartbeat timer, and the
  only call of \<^verbatim>\<open>disconnect()\<close> was made on the wrapper of the second connection.
\<close>

theorem teardown_counterexample:
  "\<not> isStreamActive (conns
       (run \<lparr> rt_parseInt = (\<lambda>t. Some 1), rt_Number = (\<lambda>v. Some 1),
               rt_env = \<lparr> env_SUPERGROUP_ID = Some ''-1002731547761'',
                          env_TOPIC_ID_str = Some ''1'' \<rparr> \<rparr>
          [Open \<lparr> sp_chatId = None, sp_topicId = None, sp_limit = None \<rparr>,
           Open \<lparr> sp_chatId = None, sp_topicId = None, sp_limit = None \<rparr>,
           Abort 0, SubscribeResolved 0] init_module) ! 0)
   \<and> heartbeatInterval (conns
       (run \<lparr> rt_parseInt = (\<lambda>t. Some 1), rt_Number = (\<lambda>v. Some 1),
               rt_env = \<lparr> env_SUPERGROUP_ID = Some ''-1002731547761'',
                          env_TOPIC_ID_str = Some ''1'' \<rparr> \<rparr>
          [Open \<lparr> sp_chatId = None, sp_topicId = None, sp_limit = None \<rparr>,
           Open \<lparr> sp_chatId = None, sp_topicId = None, sp_limit = None \<rparr>,
           Abort 0, SubscribeResolved 0] init_module) ! 0) = Some 0
   \<and> timer_live
       (run \<lparr> rt_parseInt = (\<lambda>t. Some 1), rt_Number = (\<lambda>v. Some 1),
               rt_env = \<lparr> env_SUPERGROUP_ID = Some ''-1002731547761'',
                          env_TOPIC_ID_str = Some ''1'' \<rparr> \<rparr>
          [Open \<lparr> sp_chatId = None, sp_topicId = None, sp_limit = None \<rparr>,
           Open \<lparr> sp_chatId = None, sp_topicId = None, sp_limit = None \<rparr>,
           Abort 0, SubscribeResolved 0] init_module) 0
   \<and> c_service (conns
       (run \<lparr> rt_parseInt = (\<lambda>t. Some 1), rt_Number = (\<lambda>v. Some 1),
               rt_env = \<lparr> env_SUPERGROUP_ID = Some ''-1002731547761'',
                          env_TOPIC_ID_str = Some ''1'' \<rparr> \<rparr>
          [Open \<lparr> sp_chatId = None, sp_topicId = None, sp_limit = None \<rparr>,
           Open \<lparr> sp_chatId = None, sp_topicId = None, sp_limit = None \<rparr>,
           Abort 0, SubscribeResolved 0] init_module) ! 0) = 0
   \<and> disconnect_calls
       (run \<lparr> rt_parseInt = (\<lambda>t. Some 1), rt_Number = (\<lambda>v. Some 1),
               rt_env = \<lparr> env_SUPERGROUP_ID = Some ''-1002731547761'',
                          env_TOPIC_ID_str = Some ''1'' \<rparr> \<rparr>
          [Open \<lparr> sp_chatId = None, sp_topicId = None, sp_limit = None \<rparr>,
           Open \<lparr> sp_chatId = None, sp_topicId = None, sp_limit = None \<rparr>,
           Abort 0, SubscribeResolved 0] init_module) = [1]"
  by (simp add: stream_defs init_module_def timer_live_def Let_def)

end
